theory Spec2Isabelle
  imports Complex_Main "HOL-Library.Sublist"
begin

section \<open>Strings\<close>

text \<open>
  JavaScript strings are modelled as \<open>string\<close> (lists of 8-bit characters). Case
  conversion is the ASCII one: \<open>a\<close>..\<open>z\<close> and \<open>A\<close>..\<open>Z\<close> are mapped onto each other and
  every other character is left alone. The symbol table of \<open>cryptoApi.ts\<close> is pure ASCII;
  the locale-independent Unicode mappings of \<open>String.prototype.toUpperCase\<close> outside
  ASCII are not modelled.
\<close>

definition toUpperCaseChar :: "char \<Rightarrow> char" where
  "toUpperCaseChar c =
     (let n = (of_char c :: nat) in if 97 \<le> n \<and> n \<le> 122 then char_of (n - 32) else c)"

definition toLowerCaseChar :: "char \<Rightarrow> char" where
  "toLowerCaseChar c =
     (let n = (of_char c :: nat) in if 65 \<le> n \<and> n \<le> 90 then char_of (n + 32) else c)"

definition toUpperCase :: "string \<Rightarrow> string" where
  "toUpperCase s = map toUpperCaseChar s"

definition toLowerCase :: "string \<Rightarrow> string" where
  "toLowerCase s = map toLowerCaseChar s"

text \<open>\<open>s.includes(q)\<close>: \<open>q\<close> occurs in \<open>s\<close> as a contiguous run of characters.\<close>

definition includes_str :: "string \<Rightarrow> string \<Rightarrow> bool" where
  "includes_str s q = sublist q s"


section \<open>Symbol registry (\<open>src/lib/cryptoApi.ts\<close>)\<close>

record crypto =
  c_symbol :: string
  c_id :: string
  c_name :: string

text \<open>One line of the table: \<open>{ symbol: s, id: i, name: n }\<close>.\<close>

definition entry :: "string \<Rightarrow> string \<Rightarrow> string \<Rightarrow> crypto" where
  "entry s i n = \<lparr>c_symbol = s, c_id = i, c_name = n\<rparr>"

definition SUPPORTED_CRYPTOS :: "crypto list" where
  "SUPPORTED_CRYPTOS =
    [ entry ''BTC'' ''bitcoin'' ''Bitcoin'',
      entry ''ETH'' ''ethereum'' ''Ethereum'',
      entry ''USDT'' ''tether'' ''Tether'',
      entry ''BNB'' ''binancecoin'' ''BNB'',
      entry ''SOL'' ''solana'' ''Solana'',
      entry ''XRP'' ''ripple'' ''XRP'',
      entry ''USDC'' ''usd-coin'' ''USD Coin'',
      entry ''ADA'' ''cardano'' ''Cardano'',
      entry ''DOGE'' ''dogecoin'' ''Dogecoin'',
      entry ''TRX'' ''tron'' ''TRON'',
      entry ''AVAX'' ''avalanche-2'' ''Avalanche'',
      entry ''DOT'' ''polkadot'' ''Polkadot'',
      entry ''MATIC'' ''matic-network'' ''Polygon'',
      entry ''LTC'' ''litecoin'' ''Litecoin'',
      entry ''LINK'' ''chainlink'' ''Chainlink'',
      entry ''ATOM'' ''cosmos'' ''Cosmos'',
      entry ''UNI'' ''uniswap'' ''Uniswap'',
      entry ''XLM'' ''stellar'' ''Stellar'',
      entry ''ALGO'' ''algorand'' ''Algorand'',
      entry ''FIL'' ''filecoin'' ''Filecoin'',
      entry ''SUI'' ''sui'' ''Sui'',
      entry ''APT'' ''aptos'' ''Aptos'',
      entry ''ARB'' ''arbitrum'' ''Arbitrum'',
      entry ''OP'' ''optimism'' ''Optimism'',
      entry ''INJ'' ''injective-protocol'' ''Injective'',
      entry ''TIA'' ''celestia'' ''Celestia'',
      entry ''SEI'' ''sei-network'' ''Sei'',
      entry ''STX'' ''blockstack'' ''Stacks'',
      entry ''NEAR'' ''near'' ''NEAR Protocol'',
      entry ''ICP'' ''internet-computer'' ''Internet Computer'',
      entry ''IOTEX'' ''iotex'' ''IoTeX'',
      entry ''HBAR'' ''hedera-hashgraph'' ''Hedera'',
      entry ''VET'' ''vechain'' ''VeChain'',
      entry ''FTM'' ''fantom'' ''Fantom'',
      entry ''SAND'' ''the-sandbox'' ''The Sandbox'',
      entry ''MANA'' ''decentraland'' ''Decentraland'',
      entry ''AXS'' ''axie-infinity'' ''Axie Infinity'',
      entry ''GALA'' ''gala'' ''Gala'',
      entry ''THETA'' ''theta-token'' ''Theta Network'',
      entry ''XTZ'' ''tezos'' ''Tezos'' ]"

text \<open>
  \<open>getCoinId\<close>: the first table entry whose symbol matches case-insensitively gives the
  oracle identifier; \<open>crypto?.id || symbol.toLowerCase()\<close> falls back to the lower-cased
  symbol when there is no entry (or the entry's id is the empty string).
\<close>

definition getCoinId :: "string \<Rightarrow> string" where
  "getCoinId symbol =
     (case find (\<lambda>c. toUpperCase (c_symbol c) = toUpperCase symbol) SUPPORTED_CRYPTOS of
        Some c \<Rightarrow> if c_id c \<noteq> [] then c_id c else toLowerCase symbol
      | None \<Rightarrow> toLowerCase symbol)"

definition validateSymbol :: "string \<Rightarrow> bool" where
  "validateSymbol symbol =
     list_ex (\<lambda>c. toUpperCase (c_symbol c) = toUpperCase symbol) SUPPORTED_CRYPTOS"

definition searchCryptos :: "string \<Rightarrow> crypto list" where
  "searchCryptos query =
     (if query = [] then []
      else let upperQuery = toUpperCase query in
        take 5 (filter (\<lambda>crypto.
                   includes_str (toUpperCase (c_symbol crypto)) upperQuery \<or>
                   includes_str (toUpperCase (c_name crypto)) upperQuery)
                 SUPPORTED_CRYPTOS))"


section \<open>Thrown values and numbers\<close>

text \<open>
  What a \<open>throw\<close> or a rejected promise carries: an instance of \<open>Error\<close> with its
  message, or some other value (such as the error object the record store hands back),
  which \<open>err instanceof Error\<close> tells apart.

  JavaScript numbers are modelled as \<open>real\<close>: the arithmetic of the source is read as
  exact arithmetic, without rounding, infinities or NaN. A value of type
  \<open>number | null | undefined\<close> is a \<open>real option\<close>, and its truthiness (the test that
  \<open>if (x)\<close>, \<open>x && y\<close> and \<open>!x\<close> apply) holds when it is present and not zero.
\<close>

datatype js_error = Error string | NonError string

definition truthy :: "real option \<Rightarrow> bool" where
  "truthy x = (case x of None \<Rightarrow> False | Some v \<Rightarrow> v \<noteq> 0)"


section \<open>Price oracle client: \<open>getCurrentPrice\<close> (\<open>src/lib/cryptoApi.ts\<close>)\<close>

text \<open>
  The parsed body of a response is a JSON value. An object is the list of its members in
  the order of the text; \<open>JSON.parse\<close> keeps the last of several members with one key.
\<close>

datatype json =
    JNull
  | JBool bool
  | JNumber real
  | JString string
  | JArray "json list"
  | JObject "(string \<times> json) list"

text \<open>
  What \<open>fetch\<close> gives for a URL: the promise rejects (network failure, or the abort
  signal of the 10 second timeout fires), or it resolves to a response with its \<open>ok\<close>
  flag, its status (as printed in a template string), and the outcome of
  \<open>response.json()\<close>, which rejects when the body is not JSON.
\<close>

datatype response =
    Rejected js_error
  | Response bool string "js_error + json"

text \<open>
  A property key is an array index when it is the decimal numeral of a natural number,
  with no sign and no leading zero; that number is then the index. (The bound of
  \<open>2^32 - 2\<close> on array indices lies beyond the length of any list read here.)
\<close>

definition is_digit :: "char \<Rightarrow> bool" where
  "is_digit c = (48 \<le> (of_char c :: nat) \<and> (of_char c :: nat) \<le> 57)"

definition array_index :: "string \<Rightarrow> nat option" where
  "array_index key =
     (case key of
        [] \<Rightarrow> None
      | c # cs \<Rightarrow>
          if list_all is_digit key \<and> (c \<noteq> CHR ''0'' \<or> cs = [])
          then Some (foldl (\<lambda>n d. 10 * n + ((of_char d :: nat) - 48)) 0 key)
          else None)"

text \<open>
  \<open>v[key]\<close> for a parsed JSON value, \<open>None\<close> being \<open>undefined\<close>. On \<open>null\<close> the
  access throws a TypeError (the message is the engine's). An object gives the member
  stored under the key. An array gives its element at an index key and its length under
  \<open>length\<close>; a string gives the one-character string at an index key and its length
  under \<open>length\<close>. Every other key of an array or string, and every key of a boolean
  or a number, names nothing the value holds itself.

  A key that names a member the value only inherits (a method, \<open>constructor\<close>, the
  prototype under \<open>__proto__\<close>) reads as \<open>undefined\<close> here. In the program such a read
  gives a function or a prototype object, which is truthy and has no \<open>usd\<close> member of
  its own; \<open>getCurrentPrice\<close> makes exactly two reads, \<open>data[coinId]\<close> and then
  \<open>.usd\<close> of the result, and throws the same "Price not found" error after an
  inherited member (whose \<open>usd\<close> is \<open>undefined\<close>) as after \<open>undefined\<close>.
\<close>

definition member :: "(string \<times> json) list \<Rightarrow> string \<Rightarrow> json option" where
  "member kvs key = map_of (rev kvs) key"

fun get_prop :: "json \<Rightarrow> string \<Rightarrow> js_error + json option" where
  "get_prop JNull key =
     Inl (Error (''Cannot read properties of null (reading '' @ [CHR 0x27] @ key @
                 [CHR 0x27] @ '')''))"
| "get_prop (JObject kvs) key = Inr (member kvs key)"
| "get_prop (JArray xs) key =
     Inr (if key = ''length'' then Some (JNumber (real (length xs)))
          else (case array_index key of
                  Some i \<Rightarrow> if i < length xs then Some (xs ! i) else None
                | None \<Rightarrow> None))"
| "get_prop (JString str) key =
     Inr (if key = ''length'' then Some (JNumber (real (length str)))
          else (case array_index key of
                  Some i \<Rightarrow> if i < length str then Some (JString [str ! i]) else None
                | None \<Rightarrow> None))"
| "get_prop (JBool b) key = Inr None"
| "get_prop (JNumber x) key = Inr None"

text \<open>Truthiness of a JSON value or \<open>undefined\<close>.\<close>

fun truthy_json :: "json option \<Rightarrow> bool" where
  "truthy_json None = False"
| "truthy_json (Some JNull) = False"
| "truthy_json (Some (JBool b)) = b"
| "truthy_json (Some (JNumber x)) = (x \<noteq> 0)"
| "truthy_json (Some (JString s)) = (s \<noteq> [])"
| "truthy_json (Some (JArray xs)) = True"
| "truthy_json (Some (JObject kvs)) = True"

definition price_url :: "string \<Rightarrow> string" where
  "price_url coinId =
     ''https://api.coingecko.com/api/v3/simple/price?ids='' @ coinId @ ''&vs_currencies=usd''"

definition price_not_found :: "string \<Rightarrow> string \<Rightarrow> js_error" where
  "price_not_found symbol coinId =
     Error (''Price not found for '' @ symbol @ '' ('' @ coinId @ '')'')"

text \<open>
  \<open>getCurrentPrice\<close>, with \<open>fetch\<close> as a parameter. The \<open>catch\<close> block logs and rethrows,
  so every error leaves the function as it was thrown. In
  \<open>!data[coinId] || !data[coinId].usd\<close> the second access is made only on a truthy
  \<open>data[coinId]\<close>, hence never on \<open>null\<close> or \<open>undefined\<close>.
\<close>

definition getCurrentPrice :: "(string \<Rightarrow> response) \<Rightarrow> string \<Rightarrow> js_error + json" where
  "getCurrentPrice fetch symbol =
     (let coinId = getCoinId symbol in
      (case fetch (price_url coinId) of
         Rejected e \<Rightarrow> Inl e
       | Response ok status body \<Rightarrow>
          (if \<not> ok then Inl (Error (''API returned '' @ status))
           else
            (case body of
               Inl e \<Rightarrow> Inl e
             | Inr data \<Rightarrow>
                (case get_prop data coinId of
                   Inl e \<Rightarrow> Inl e
                 | Inr dataCoin \<Rightarrow>
                    (if \<not> truthy_json dataCoin then Inl (price_not_found symbol coinId)
                     else
                      (case dataCoin of
                         None \<Rightarrow> Inl (price_not_found symbol coinId)
                       | Some d \<Rightarrow>
                          (case get_prop d ''usd'' of
                             Inl e \<Rightarrow> Inl e
                           | Inr usd \<Rightarrow>
                              (if \<not> truthy_json usd then Inl (price_not_found symbol coinId)
                               else
                                (case usd of
                                   None \<Rightarrow> Inl (price_not_found symbol coinId)
                                 | Some v \<Rightarrow> Inr v))))))))))"

text \<open>
  The expected shape of a spot-price body, \<open>{ [id]: { usd: number } }\<close>, as the interface
  description words it: the body is an object with a member \<open>id\<close> that is an object with
  a member \<open>usd\<close> that is a number; \<open>price_field\<close> is that number when the body has the
  shape.
\<close>

definition price_field :: "json \<Rightarrow> string \<Rightarrow> real option" where
  "price_field data coinId =
     (case data of
        JObject kvs \<Rightarrow>
          (case member kvs coinId of
             Some (JObject ekvs) \<Rightarrow>
               (case member ekvs ''usd'' of Some (JNumber x) \<Rightarrow> Some x | _ \<Rightarrow> None)
           | _ \<Rightarrow> None)
      | _ \<Rightarrow> None)"


section \<open>Purchase records (\<open>src/lib/supabase.ts\<close>, \<open>PortfolioList\<close>)\<close>

text \<open>
  \<open>CryptoPurchase\<close> is the stored row; its \<open>id\<close> is the field \<open>id'\<close> here.
  \<open>PurchaseWithPrice\<close> extends it with three optional numbers; an absent (\<open>undefined\<close>)
  member is \<open>None\<close>. A row as the store returns it has none of the three.
\<close>

record CryptoPurchase =
  id' :: string
  symbol :: string
  purchase_date :: string
  amount :: real
  purchase_price_usd :: "real option"
  created_at :: string
  updated_at :: string

record PurchaseWithPrice = CryptoPurchase +
  currentPrice :: "real option"
  profitLoss :: "real option"
  profitLossPercent :: "real option"

text \<open>The component state of \<open>PortfolioList\<close> (its four \<open>useState\<close> cells).\<close>

record PortfolioList_state =
  purchases :: "PurchaseWithPrice list"
  loading :: bool
  error :: string
  pricesLoading :: bool


section \<open>Valuation pass: \<open>fetchCurrentPrices\<close>\<close>

text \<open>
  \<open>[...new Set(xs)]\<close>: the distinct elements of \<open>xs\<close> in the order of their first
  occurrence (\<open>Set.add\<close> ignores a value that is already there).
\<close>

definition Set_add :: "'a \<Rightarrow> 'a list \<Rightarrow> 'a list" where
  "Set_add x acc = (if x \<in> set acc then acc else acc @ [x])"

definition Set_values :: "'a list \<Rightarrow> 'a list" where
  "Set_values xs = fold Set_add xs []"

text \<open>
  \<open>Promise.all\<close> over settled outcomes: it rejects when one of them is a rejection and
  otherwise resolves to the list of the values, in order.
\<close>

fun Promise_all :: "(js_error + 'a) list \<Rightarrow> js_error + 'a list" where
  "Promise_all [] = Inr []"
| "Promise_all (Inl e # ps) = Inl e"
| "Promise_all (Inr v # ps) =
     (case Promise_all ps of Inl e \<Rightarrow> Inl e | Inr vs \<Rightarrow> Inr (v # vs))"

text \<open>\<open>new Map(entries)\<close>: a later entry replaces an earlier one with the same key.\<close>

definition Map_new :: "('k \<times> 'v) list \<Rightarrow> ('k \<rightharpoonup> 'v)" where
  "Map_new entries = fold (\<lambda>(k, v) m. m(k \<mapsto> v)) entries Map.empty"

text \<open>
  \<open>priceMap.get(symbol)\<close> is \<open>undefined\<close> for a missing key and may be the stored
  \<open>null\<close>; both are an absent number.
\<close>

definition Map_get :: "(string \<rightharpoonup> real option) \<Rightarrow> string \<Rightarrow> real option" where
  "Map_get priceMap key = (case priceMap key of None \<Rightarrow> None | Some v \<Rightarrow> v)"

text \<open>
  The body of \<open>uniqueSymbols.map(async (symbol) => ...)\<close>: the \<open>try\<close>/\<open>catch\<close> turns a
  failure of \<open>getCurrentPrice\<close> into the entry \<open>{ symbol, price: null }\<close>. The parameter
  \<open>getPrice\<close> is the outcome of \<open>await getCurrentPrice(symbol)\<close> at its declared type
  \<open>Promise<number>\<close>.
\<close>

definition pricePromise ::
  "(string \<Rightarrow> js_error + real) \<Rightarrow> string \<Rightarrow> js_error + (string \<times> real option)" where
  "pricePromise getPrice symb =
     (case getPrice symb of
        Inr price \<Rightarrow> Inr (symb, Some price)
      | Inl err \<Rightarrow> Inr (symb, None))"

text \<open>
  The callback of \<open>purchasesData.map\<close>. The spread \<open>...purchase\<close> copies every member
  of the record, the three derived ones included when it carries them, and the literal
  then sets the three; \<open>return purchase\<close> hands the record back as it came.
\<close>

definition updatePurchase ::
  "(string \<rightharpoonup> real option) \<Rightarrow> PurchaseWithPrice \<Rightarrow> PurchaseWithPrice" where
  "updatePurchase priceMap purchase =
     (let current = Map_get priceMap (symbol purchase) in
      if truthy current \<and> truthy (purchase_price_usd purchase) then
        (case (current, purchase_price_usd purchase) of
           (Some cp, Some pp) \<Rightarrow>
             purchase\<lparr> currentPrice := Some cp,
                       profitLoss := Some ((cp - pp) * amount purchase),
                       profitLossPercent := Some ((cp - pp) / pp * 100) \<rparr>
         | _ \<Rightarrow> purchase)
      else purchase)"

text \<open>
  The fan-out and join at the head of \<open>fetchCurrentPrices\<close>: the distinct symbols, one
  promise each, and \<open>await Promise.all(pricePromises)\<close>.
\<close>

definition fetchPrices ::
  "(string \<Rightarrow> js_error + real) \<Rightarrow> PurchaseWithPrice list
     \<Rightarrow> js_error + (string \<times> real option) list" where
  "fetchPrices getPrice purchasesData =
     (let uniqueSymbols = Set_values (map symbol purchasesData);
          pricePromises = map (pricePromise getPrice) uniqueSymbols
      in Promise_all pricePromises)"

text \<open>
  \<open>fetchCurrentPrices\<close>: \<open>Inl\<close> is a rejection of the promise the function returns,
  \<open>Inr\<close> the component state after \<open>setPurchases(updatedPurchases)\<close> and
  \<open>setPricesLoading(false)\<close>. The parameter is declared \<open>CryptoPurchase[]\<close>; the
  interval callback passes the component's own \<open>PurchaseWithPrice[]\<close>, and an object
  keeps its extra members at run time, so the model takes the wider type.
\<close>

definition fetchCurrentPrices ::
  "(string \<Rightarrow> js_error + real) \<Rightarrow> PurchaseWithPrice list \<Rightarrow> PortfolioList_state
     \<Rightarrow> js_error + PortfolioList_state" where
  "fetchCurrentPrices getPrice purchasesData st =
     (let st1 = st\<lparr>pricesLoading := True\<rparr> in
      (case fetchPrices getPrice purchasesData of
         Inl e \<Rightarrow> Inl e
       | Inr prices \<Rightarrow>
           (let priceMap = Map_new prices;
                updatedPurchases = map (updatePurchase priceMap) purchasesData
            in Inr (st1\<lparr>purchases := updatedPurchases, pricesLoading := False\<rparr>))))"


section \<open>Portfolio summary (render of \<open>PortfolioList\<close>)\<close>

definition totalValue :: "PurchaseWithPrice list \<Rightarrow> real" where
  "totalValue ps =
     foldl (\<lambda>sum p. (case currentPrice p of
                        Some cp \<Rightarrow> if cp \<noteq> 0 then sum + cp * amount p else sum
                      | None \<Rightarrow> sum)) 0 ps"

definition totalCost :: "PurchaseWithPrice list \<Rightarrow> real" where
  "totalCost ps =
     foldl (\<lambda>sum p. (case purchase_price_usd p of
                        Some pp \<Rightarrow> if pp \<noteq> 0 then sum + pp * amount p else sum
                      | None \<Rightarrow> sum)) 0 ps"

definition totalProfitLoss :: "PurchaseWithPrice list \<Rightarrow> real" where
  "totalProfitLoss ps = totalValue ps - totalCost ps"

definition totalProfitLossPercent :: "PurchaseWithPrice list \<Rightarrow> real" where
  "totalProfitLossPercent ps =
     (if totalCost ps > 0 then totalProfitLoss ps / totalCost ps * 100 else 0)"

text \<open>
  What the component shows: the spinner while the list loads, the error box, the notice
  for an empty list, and otherwise the summary with the four totals (its first argument
  is \<open>pricesLoading\<close>, under which the value and profit cells show dots).
\<close>

datatype view =
    Loading_spinner
  | Error_box string
  | No_purchases_yet
  | Summary bool real real real real

definition render :: "PortfolioList_state \<Rightarrow> view" where
  "render st =
     (if loading st then Loading_spinner
      else if error st \<noteq> [] then Error_box (error st)
      else if length (purchases st) = 0 then No_purchases_yet
      else Summary (pricesLoading st) (totalValue (purchases st)) (totalCost (purchases st))
             (totalProfitLoss (purchases st)) (totalProfitLossPercent (purchases st)))"


section \<open>Requests to the collaborators\<close>

text \<open>
  A \<open>Date\<close> object is either the invalid date or a valid instant, kept as the text
  \<open>toISOString\<close> prints for it; on the invalid date \<open>toISOString\<close> throws a
  RangeError.
\<close>

datatype Date = Invalid_Date | Date string

definition toISOString :: "Date \<Rightarrow> js_error + string" where
  "toISOString d =
     (case d of Invalid_Date \<Rightarrow> Inl (Error ''Invalid time value'') | Date printed \<Rightarrow> Inr printed)"

text \<open>The object literal handed to \<open>insert\<close> by the add-purchase form.\<close>

record new_purchase =
  n_symbol :: string
  n_purchase_date :: string
  n_amount :: real
  n_purchase_price_usd :: real

text \<open>
  Requests sent to the two collaborators, in the order they are made: a historical-price
  lookup (one call of \<open>getHistoricalPrice\<close>), an insert into the store, a delete from
  the store.
\<close>

datatype call =
    Oracle_history string Date
  | Store_insert new_purchase
  | Store_delete string

text \<open>\<open>err instanceof Error ? err.message : fallback\<close>.\<close>

definition error_text :: "string \<Rightarrow> js_error \<Rightarrow> string" where
  "error_text fallback err = (case err of Error message \<Rightarrow> message | NonError _ \<Rightarrow> fallback)"


section \<open>Delete workflow: \<open>handleDelete\<close>\<close>

record delete_result =
  d_state :: PortfolioList_state
  d_calls :: "call list"
  d_alert :: "string option"

text \<open>
  \<open>handleDelete\<close>: \<open>confirmed\<close> is the answer of the \<open>confirm\<close> dialog and \<open>delete\<close>
  the outcome of the store's delete for an id (\<open>None\<close>: no \<open>deleteError\<close>). The state
  \<open>st\<close> is that of the render whose handler runs: \<open>purchases\<close> is the list its closure
  holds.
\<close>

definition handleDelete ::
  "bool \<Rightarrow> (string \<Rightarrow> js_error option) \<Rightarrow> string \<Rightarrow> PortfolioList_state \<Rightarrow> delete_result" where
  "handleDelete confirmed delete ident st =
     (if \<not> confirmed then \<lparr>d_state = st, d_calls = [], d_alert = None\<rparr>
      else
        (case delete ident of
           Some deleteError \<Rightarrow>
             \<lparr>d_state = st, d_calls = [Store_delete ident],
              d_alert = Some (error_text ''Failed to delete purchase'' deleteError)\<rparr>
         | None \<Rightarrow>
             \<lparr>d_state = st\<lparr>purchases := filter (\<lambda>p. id' p \<noteq> ident) (purchases st)\<rparr>,
              d_calls = [Store_delete ident], d_alert = None\<rparr>))"


section \<open>Add-purchase workflow: \<open>handleSubmit\<close> (\<open>AddPurchaseForm\<close>)\<close>

text \<open>
  The form's state cells that \<open>handleSubmit\<close> reads or writes (\<open>symbol\<close>,
  \<open>purchaseDate\<close>, \<open>purchaseTime\<close>, \<open>amount\<close>, \<open>loading\<close>, \<open>error\<close>), prefixed
  with \<open>f_\<close>.
\<close>

record AddPurchaseForm_state =
  f_symbol :: string
  f_purchaseDate :: string
  f_purchaseTime :: string
  f_amount :: string
  f_loading :: bool
  f_error :: string

record submit_result =
  s_state :: AddPurchaseForm_state
  s_calls :: "call list"
  s_purchaseAdded :: bool

definition not_supported_text :: "string \<Rightarrow> string" where
  "not_supported_text sy =
     [CHR 0x22] @ sy @ [CHR 0x22] @
     '' is not a supported cryptocurrency. Please select from the suggestions.''"

text \<open>
  \<open>handleSubmit\<close>. Parameters: \<open>newDate\<close> is \<open>new Date(text)\<close>, \<open>parseFloat\<close> the
  built-in, \<open>getHistoricalPrice\<close> the outcome of awaiting the oracle client, and
  \<open>insert_row\<close> the \<open>error\<close> member of the store's answer to the insert (\<open>None\<close> when
  there is none). The result holds the form state after the handler, the requests made,
  and whether \<open>onPurchaseAdded\<close> was called. The argument of \<open>insert\<close> is built before
  the request is sent, so a throw of \<open>toISOString\<close> leaves no request behind.
\<close>

definition handleSubmit ::
  "(string \<Rightarrow> Date) \<Rightarrow> (string \<Rightarrow> real) \<Rightarrow> (string \<Rightarrow> Date \<Rightarrow> js_error + real) \<Rightarrow>
   (new_purchase \<Rightarrow> js_error option) \<Rightarrow> AddPurchaseForm_state \<Rightarrow> submit_result" where
  "handleSubmit newDate parseFloat getHistoricalPrice insert_row st =
     (let st1 = st\<lparr>f_error := []\<rparr> in
      if \<not> validateSymbol (f_symbol st) then
        \<lparr>s_state = st1\<lparr>f_error := not_supported_text (f_symbol st)\<rparr>,
         s_calls = [], s_purchaseAdded = False\<rparr>
      else
        (let st2 = st1\<lparr>f_loading := True\<rparr>;
             purchaseDateTime = newDate (f_purchaseDate st @ ''T'' @ f_purchaseTime st);
             failed = (\<lambda>err calls.
               \<lparr>s_state = st2\<lparr>f_error := error_text ''Failed to add purchase'' err,
                               f_loading := False\<rparr>,
                s_calls = calls, s_purchaseAdded = False\<rparr>)
         in
          (case getHistoricalPrice (f_symbol st) purchaseDateTime of
             Inl err \<Rightarrow> failed err [Oracle_history (f_symbol st) purchaseDateTime]
           | Inr historicalPrice \<Rightarrow>
              (case toISOString purchaseDateTime of
                 Inl err \<Rightarrow> failed err [Oracle_history (f_symbol st) purchaseDateTime]
               | Inr isoText \<Rightarrow>
                  (let new = \<lparr>n_symbol = toUpperCase (f_symbol st),
                              n_purchase_date = isoText,
                              n_amount = parseFloat (f_amount st),
                              n_purchase_price_usd = historicalPrice\<rparr>
                   in
                    (case insert_row new of
                       Some dbError \<Rightarrow>
                         failed dbError
                           [Oracle_history (f_symbol st) purchaseDateTime, Store_insert new]
                     | None \<Rightarrow>
                         \<lparr>s_state = st2\<lparr>f_symbol := [], f_purchaseDate := [],
                                         f_purchaseTime := ''12:00'', f_amount := [],
                                         f_loading := False\<rparr>,
                          s_calls =
                            [Oracle_history (f_symbol st) purchaseDateTime, Store_insert new],
                          s_purchaseAdded = True\<rparr>))))))"

text \<open>What the handler would insert after a fetch that returned \<open>h\<close>.\<close>

definition submitted_row ::
  "(string \<Rightarrow> real) \<Rightarrow> AddPurchaseForm_state \<Rightarrow> string \<Rightarrow> real \<Rightarrow> new_purchase" where
  "submitted_row parseFloat st isoText h =
     \<lparr>n_symbol = toUpperCase (f_symbol st), n_purchase_date = isoText,
      n_amount = parseFloat (f_amount st), n_purchase_price_usd = h\<rparr>"

text \<open>The \<open>purchaseDateTime\<close> of the handler: \<open>new Date(`${purchaseDate}T${purchaseTime}`)\<close>.\<close>

definition purchaseDateTime_of :: "(string \<Rightarrow> Date) \<Rightarrow> AddPurchaseForm_state \<Rightarrow> Date" where
  "purchaseDateTime_of newDate st = newDate (f_purchaseDate st @ ''T'' @ f_purchaseTime st)"


section \<open>Refresh timer: the interval effect of \<open>PortfolioList\<close>\<close>

text \<open>
  The timers of the page: \<open>setInterval\<close> hands out a fresh id and registers the
  callback, here the record list its closure captured; \<open>clearInterval\<close> removes the
  timer with that id. With them, what the hook remembers between renders: the dependency
  value of the last run of the effect (\<open>purchases.length\<close>; \<open>None\<close> before the first
  render) and the id its cleanup function will clear (\<open>None\<close> when the effect returned
  nothing).
\<close>

record scheduler =
  next_id :: nat
  active :: "(nat \<times> PurchaseWithPrice list) list"
  deps :: "nat option"
  cleanup :: "nat option"

definition setInterval :: "PurchaseWithPrice list \<Rightarrow> scheduler \<Rightarrow> nat \<times> scheduler" where
  "setInterval captured s =
     (next_id s, s\<lparr>next_id := Suc (next_id s), active := active s @ [(next_id s, captured)]\<rparr>)"

definition clearInterval :: "nat \<Rightarrow> scheduler \<Rightarrow> scheduler" where
  "clearInterval interval s = s\<lparr>active := filter (\<lambda>(j, captured). j \<noteq> interval) (active s)\<rparr>"

text \<open>
  The body of the effect: nothing for an empty list, otherwise one new interval whose
  id the returned cleanup function clears.
\<close>

definition interval_effect :: "PurchaseWithPrice list \<Rightarrow> scheduler \<Rightarrow> scheduler" where
  "interval_effect ps s =
     (if length ps = 0 then s\<lparr>cleanup := None\<rparr>
      else (case setInterval ps s of (interval, s') \<Rightarrow> s'\<lparr>cleanup := Some interval\<rparr>))"

definition run_cleanup :: "scheduler \<Rightarrow> scheduler" where
  "run_cleanup s =
     (case cleanup s of
        None \<Rightarrow> s
      | Some interval \<Rightarrow> (clearInterval interval s)\<lparr>cleanup := None\<rparr>)"

text \<open>
  What \<open>useEffect(effect, [purchases.length])\<close> does after a render with the list
  \<open>ps\<close>: when the dependency value equals the one of the last run, nothing; otherwise
  the cleanup of the last run and then the effect. \<open>renders\<close> is the component's life
  from its mount through a sequence of renders.
\<close>

definition commit :: "PurchaseWithPrice list \<Rightarrow> scheduler \<Rightarrow> scheduler" where
  "commit ps s =
     (if deps s = Some (length ps) then s
      else (interval_effect ps (run_cleanup s))\<lparr>deps := Some (length ps)\<rparr>)"

definition mount :: scheduler where
  "mount = \<lparr>next_id = 0, active = [], deps = None, cleanup = None\<rparr>"

definition renders :: "PurchaseWithPrice list list \<Rightarrow> scheduler" where
  "renders rs = fold commit rs mount"

text \<open>
  The shape of every state the hook can be in: no cleanup registered and no timer
  running, or one cleanup registered for the one running timer, whose captured list is
  non-empty and has the length recorded as the dependency value.
\<close>

definition timer_inv :: "scheduler \<Rightarrow> bool" where
  "timer_inv s =
     (case cleanup s of
        None \<Rightarrow> active s = [] \<and> (deps s = None \<or> deps s = Some 0)
      | Some i \<Rightarrow> i < next_id s \<and>
          (case active s of
             [(j, ps)] \<Rightarrow> j = i \<and> deps s = Some (length ps) \<and> ps \<noteq> []
           | _ \<Rightarrow> False))"


section \<open>Sample inputs\<close>

text \<open>
  A freshly mounted component, a row as the store lists it (no derived members), and an
  oracle that answers for BTC only.
\<close>

definition st0 :: PortfolioList_state where
  "st0 = \<lparr>purchases = [], loading = False, error = [], pricesLoading = False\<rparr>"

definition row :: "string \<Rightarrow> string \<Rightarrow> real \<Rightarrow> real option \<Rightarrow> PurchaseWithPrice" where
  "row i s a pp =
     \<lparr>id' = i, symbol = s, purchase_date = ''2023-01-01T12:00:00.000Z'', amount = a,
      purchase_price_usd = pp, created_at = ''2023-01-02T08:00:00.000Z'',
      updated_at = ''2023-01-02T08:00:00.000Z'',
      currentPrice = None, profitLoss = None, profitLossPercent = None\<rparr>"

definition only_btc :: "real \<Rightarrow> string \<Rightarrow> js_error + real" where
  "only_btc price s = (if s = ''BTC'' then Inr price else Inl (Error ''API returned 429''))"

text \<open>An oracle that fails for every symbol, and a record as a successful pass leaves it.\<close>

definition all_fail :: "string \<Rightarrow> js_error + real" where
  "all_fail s = Inl (Error ''API returned 429'')"

definition valued_row :: PurchaseWithPrice where
  "valued_row = (row ''1'' ''BTC'' 2 (Some 100))
     \<lparr>currentPrice := Some 150, profitLoss := Some 100, profitLossPercent := Some 50\<rparr>"

text \<open>
  A record with a negative amount, valued at a BTC price of 150; two oracle responses
  for BTC, one quoting 0 and one quoting 150.
\<close>

definition short_row :: PurchaseWithPrice where
  "short_row = (row ''3'' ''BTC'' (- 1) (Some 100))
     \<lparr>currentPrice := Some 150, profitLoss := Some (- 50), profitLossPercent := Some 50\<rparr>"

definition zero_price_fetch :: "string \<Rightarrow> response" where
  "zero_price_fetch url =
     Response True ''200'' (Inr (JObject [(''bitcoin'', JObject [(''usd'', JNumber 0)])]))"

definition price_fetch :: "string \<Rightarrow> response" where
  "price_fetch url =
     Response True ''200'' (Inr (JObject [(''bitcoin'', JObject [(''usd'', JNumber 150)])]))"

text \<open>
  Two successful responses without a number under \<open>usd\<close>: one quoting the text
  \<open>"abc"\<close>, and one whose body is the array \<open>[{"usd": 5}]\<close>.
\<close>

definition text_price_fetch :: "string \<Rightarrow> response" where
  "text_price_fetch url =
     Response True ''200'' (Inr (JObject [(''bitcoin'', JObject [(''usd'', JString ''abc'')])]))"

definition array_fetch :: "string \<Rightarrow> response" where
  "array_fetch url = Response True ''200'' (Inr (JArray [JObject [(''usd'', JNumber 5)]]))"

text \<open>
  A response with status 429, a request cut off by the timeout, and what awaiting
  \<open>getCurrentPrice\<close> gives a pass when the oracle quotes \<open>usd: 0\<close>: the rejection with
  "Price not found".
\<close>

definition status_429_fetch :: "string \<Rightarrow> response" where
  "status_429_fetch url = Response False ''429'' (Inr JNull)"

definition timeout_fetch :: "string \<Rightarrow> response" where
  "timeout_fetch url = Rejected (Error ''The operation timed out.'')"

definition usd_zero :: "string \<Rightarrow> js_error + real" where
  "usd_zero s = Inl (price_not_found s (getCoinId s))"

text \<open>A store that deletes, one that refuses, and a list of two displayed records.\<close>

definition store_ok :: "string \<Rightarrow> js_error option" where
  "store_ok ident = None"

definition store_down :: "string \<Rightarrow> js_error option" where
  "store_down ident = Some (NonError ''permission denied'')"

definition two_rows :: PortfolioList_state where
  "two_rows = st0\<lparr>purchases := [valued_row, row ''2'' ''ETH'' 1 (Some 10)]\<rparr>"

text \<open>Two filled forms, and collaborators for them: the clock, the parser, the oracle, the store.\<close>

definition btc_form :: AddPurchaseForm_state where
  "btc_form = \<lparr>f_symbol = ''btc'', f_purchaseDate = ''2023-01-01'', f_purchaseTime = ''12:00'',
               f_amount = ''1'', f_loading = False, f_error = []\<rparr>"

definition notacoin_form :: AddPurchaseForm_state where
  "notacoin_form = btc_form\<lparr>f_symbol := ''NOTACOIN''\<rparr>"

definition noon :: "string \<Rightarrow> Date" where
  "noon t = Date ''2023-01-01T12:00:00.000Z''"

definition one :: "string \<Rightarrow> real" where
  "one t = 1"

definition history_40000 :: "string \<Rightarrow> Date \<Rightarrow> js_error + real" where
  "history_40000 sy d = Inr 40000"

definition history_down :: "string \<Rightarrow> Date \<Rightarrow> js_error + real" where
  "history_down sy d = Inl (Error ''API returned 429'')"

definition insert_ok :: "new_purchase \<Rightarrow> js_error option" where
  "insert_ok new = None"

text \<open>The price a symbol resolves to in a pass: the fetched number, or \<open>null\<close>.\<close>

definition resolved :: "(string \<Rightarrow> js_error + real) \<Rightarrow> string \<Rightarrow> real option" where
  "resolved getPrice s = (case getPrice s of Inr price \<Rightarrow> Some price | Inl e \<Rightarrow> None)"


section \<open>Registry search\<close>

lemma searchCryptos_empty: "searchCryptos [] = []"
  by (simp add: searchCryptos_def)

lemma searchCryptos_length: "length (searchCryptos query) \<le> 5"
  by (simp add: searchCryptos_def Let_def)

lemma searchCryptos_match:
  assumes "c \<in> set (searchCryptos query)"
  shows "c \<in> set SUPPORTED_CRYPTOS \<and>
         (includes_str (toUpperCase (c_symbol c)) (toUpperCase query) \<or>
          includes_str (toUpperCase (c_name c)) (toUpperCase query))"
proof -
  from assms have "query \<noteq> []"
    by (auto simp: searchCryptos_def)
  with assms have "c \<in> set (take 5 (filter (\<lambda>crypto.
                   includes_str (toUpperCase (c_symbol crypto)) (toUpperCase query) \<or>
                   includes_str (toUpperCase (c_name crypto)) (toUpperCase query))
                 SUPPORTED_CRYPTOS))"
    by (simp add: searchCryptos_def Let_def)
  then have "c \<in> set (filter (\<lambda>crypto.
                   includes_str (toUpperCase (c_symbol crypto)) (toUpperCase query) \<or>
                   includes_str (toUpperCase (c_name crypto)) (toUpperCase query))
                 SUPPORTED_CRYPTOS)"
    by (rule in_set_takeD)
  then show ?thesis by simp
qed

text \<open>
  C8. \<open>searchCryptos\<close> of the empty query is the empty sequence; for every query the
  result has at most 5 entries; and every returned entry is a table entry whose symbol
  or display name, upper-cased, contains the upper-cased query as a contiguous substring
  (a case-insensitive match).
\<close>

theorem C8_search:
  "searchCryptos [] = [] \<and>
   length (searchCryptos query) \<le> 5 \<and>
   (\<forall>c \<in> set (searchCryptos query).
      (\<exists>ps ss. toUpperCase (c_symbol c) = ps @ toUpperCase query @ ss) \<or>
      (\<exists>ps ss. toUpperCase (c_name c) = ps @ toUpperCase query @ ss))"
proof (intro conjI ballI)
  show "searchCryptos [] = []" by (rule searchCryptos_empty)
  show "length (searchCryptos query) \<le> 5" by (rule searchCryptos_length)
next
  fix c assume "c \<in> set (searchCryptos query)"
  then have "includes_str (toUpperCase (c_symbol c)) (toUpperCase query) \<or>
             includes_str (toUpperCase (c_name c)) (toUpperCase query)"
    using searchCryptos_match by blast
  then show "(\<exists>ps ss. toUpperCase (c_symbol c) = ps @ toUpperCase query @ ss) \<or>
             (\<exists>ps ss. toUpperCase (c_name c) = ps @ toUpperCase query @ ss)"
    by (simp add: includes_str_def sublist_def)
qed

theorem C8_search_witness:
  "entry ''BTC'' ''bitcoin'' ''Bitcoin'' \<in> set (searchCryptos ''bit'') \<and>
   length (searchCryptos ''bit'') \<le> 5 \<and>
   (\<exists>ps ss. toUpperCase ''Bitcoin'' = ps @ toUpperCase ''bit'' @ ss)"
proof -
  let ?c = "entry ''BTC'' ''bitcoin'' ''Bitcoin''"
  have mem: "?c \<in> set (searchCryptos ''bit'')"
    by code_simp
  have all: "\<forall>c \<in> set (searchCryptos ''bit'').
      (\<exists>ps ss. toUpperCase (c_symbol c) = ps @ toUpperCase ''bit'' @ ss) \<or>
      (\<exists>ps ss. toUpperCase (c_name c) = ps @ toUpperCase ''bit'' @ ss)"
    and len: "length (searchCryptos ''bit'') \<le> 5"
    using C8_search [of "''bit''"] by simp_all
  from all mem have
    "(\<exists>ps ss. toUpperCase (c_symbol ?c) = ps @ toUpperCase ''bit'' @ ss) \<or>
     (\<exists>ps ss. toUpperCase (c_name ?c) = ps @ toUpperCase ''bit'' @ ss)"
    by (rule bspec)
  then have disj:
    "(\<exists>ps ss. toUpperCase ''BTC'' = ps @ toUpperCase ''bit'' @ ss) \<or>
     (\<exists>ps ss. toUpperCase ''Bitcoin'' = ps @ toUpperCase ''bit'' @ ss)"
    by (simp add: entry_def)
  have "\<not> sublist (toUpperCase ''bit'') (toUpperCase ''BTC'')"
    by code_simp
  then have "\<not> (\<exists>ps ss. toUpperCase ''BTC'' = ps @ toUpperCase ''bit'' @ ss)"
    by (simp add: sublist_def)
  with disj have "\<exists>ps ss. toUpperCase ''Bitcoin'' = ps @ toUpperCase ''bit'' @ ss"
    by blast
  with mem len show ?thesis by blast
qed


section \<open>The valuation pass completes\<close>

lemma set_fold_Set_add: "set (fold Set_add xs acc) = set acc \<union> set xs"
  by (induction xs arbitrary: acc) (auto simp: Set_add_def)

lemma set_Set_values: "set (Set_values xs) = set xs"
  by (simp add: Set_values_def set_fold_Set_add)

lemma distinct_fold_Set_add: "distinct acc \<Longrightarrow> distinct (fold Set_add xs acc)"
  by (induction xs arbitrary: acc) (auto simp: Set_add_def)

lemma distinct_Set_values: "distinct (Set_values xs)"
  by (simp add: Set_values_def distinct_fold_Set_add)

lemma Promise_all_pricePromise:
  "Promise_all (map (pricePromise getPrice) syms) = Inr (map (\<lambda>s. (s, resolved getPrice s)) syms)"
  by (induction syms) (auto simp: pricePromise_def resolved_def split: sum.splits)

lemma fold_upd:
  "fold (\<lambda>(k, v) m. m(k \<mapsto> v)) (map (\<lambda>s. (s, f s)) syms) m k =
     (if k \<in> set syms then Some (f k) else m k)"
  by (induction syms arbitrary: m) auto

lemma Map_new_graph:
  "Map_new (map (\<lambda>s. (s, f s)) syms) k = (if k \<in> set syms then Some (f k) else None)"
  by (simp add: Map_new_def fold_upd)

lemma fetchPrices_eq:
  "fetchPrices getPrice ps =
     Inr (map (\<lambda>s. (s, resolved getPrice s)) (Set_values (map symbol ps)))"
  by (simp add: fetchPrices_def Promise_all_pricePromise)

lemma priceMap_get:
  assumes "p \<in> set ps"
  shows "Map_get (Map_new (map (\<lambda>s. (s, resolved getPrice s)) (Set_values (map symbol ps)))) (symbol p)
         = resolved getPrice (symbol p)"
  using assms by (simp add: Map_get_def Map_new_graph set_Set_values)

text \<open>
  C1. For every list of purchase records and every outcome of the per-symbol fetches, the
  fan-out resolves (\<open>Promise.all\<close> does not reject) and the pass ends with the state
  holding one valued record per input record. The price map gives each symbol of the
  input the fetched price when its own fetch succeeded and \<open>null\<close> when its own fetch
  failed, whatever the other fetches did. On a loaded component with a non-empty list the
  summary with its four totals is what is then shown.
\<close>

theorem C1_valuation_never_fails:
  "\<exists>prices st'.
     fetchPrices getPrice ps = Inr prices \<and>
     fetchCurrentPrices getPrice ps st = Inr st' \<and>
     purchases st' = map (updatePurchase (Map_new prices)) ps \<and>
     length (purchases st') = length ps \<and>
     (\<forall>p \<in> set ps. Map_get (Map_new prices) (symbol p) =
        (case getPrice (symbol p) of Inr price \<Rightarrow> Some price | Inl e \<Rightarrow> None)) \<and>
     (\<not> loading st \<and> error st = [] \<and> ps \<noteq> [] \<longrightarrow>
        render st' = Summary False (totalValue (purchases st')) (totalCost (purchases st'))
                       (totalProfitLoss (purchases st')) (totalProfitLossPercent (purchases st')))"
proof -
  let ?prices = "map (\<lambda>s. (s, resolved getPrice s)) (Set_values (map symbol ps))"
  let ?st' = "st\<lparr>purchases := map (updatePurchase (Map_new ?prices)) ps, pricesLoading := False\<rparr>"
  have 1: "fetchPrices getPrice ps = Inr ?prices"
    by (rule fetchPrices_eq)
  have 2: "fetchCurrentPrices getPrice ps st = Inr ?st'"
    by (simp add: fetchCurrentPrices_def 1)
  have 3: "\<forall>p \<in> set ps. Map_get (Map_new ?prices) (symbol p) =
        (case getPrice (symbol p) of Inr price \<Rightarrow> Some price | Inl e \<Rightarrow> None)"
    using priceMap_get [of _ ps getPrice] by (simp add: resolved_def)
  have 4: "render ?st' = Summary False (totalValue (purchases ?st')) (totalCost (purchases ?st'))
                       (totalProfitLoss (purchases ?st')) (totalProfitLossPercent (purchases ?st'))"
    if "\<not> loading st \<and> error st = [] \<and> ps \<noteq> []"
    using that by (simp add: render_def)
  show ?thesis
    using 1 2 3 4 by (intro exI [of _ ?prices] exI [of _ ?st']) simp
qed

theorem C1_valuation_never_fails_witness:
  "\<exists>prices st'.
     fetchPrices (only_btc 150) [row ''1'' ''BTC'' 2 (Some 100), row ''2'' ''ETH'' 1 (Some 10)] = Inr prices \<and>
     fetchCurrentPrices (only_btc 150) [row ''1'' ''BTC'' 2 (Some 100), row ''2'' ''ETH'' 1 (Some 10)] st0 = Inr st' \<and>
     length (purchases st') = 2 \<and>
     Map_get (Map_new prices) ''BTC'' = Some 150 \<and>
     Map_get (Map_new prices) ''ETH'' = None \<and>
     render st' = Summary False (totalValue (purchases st')) (totalCost (purchases st'))
                       (totalProfitLoss (purchases st')) (totalProfitLossPercent (purchases st'))"
  using C1_valuation_never_fails [of "only_btc 150" "[row ''1'' ''BTC'' 2 (Some 100), row ''2'' ''ETH'' 1 (Some 10)]" st0]
  by (auto simp: row_def only_btc_def st0_def)


section \<open>Per-record profit and loss\<close>

lemma fetchCurrentPrices_nth:
  assumes "i < length ps"
  shows "\<exists>st'. fetchCurrentPrices getPrice ps st = Inr st' \<and>
           purchases st' ! i =
             updatePurchase (\<lambda>k. if k = symbol (ps ! i) then Some (resolved getPrice k) else None) (ps ! i)"
proof -
  let ?M = "Map_new (map (\<lambda>s. (s, resolved getPrice s)) (Set_values (map symbol ps)))"
  have "fetchCurrentPrices getPrice ps st =
          Inr (st\<lparr>purchases := map (updatePurchase ?M) ps, pricesLoading := False\<rparr>)"
    by (simp add: fetchCurrentPrices_def fetchPrices_eq)
  moreover have "Map_get ?M (symbol (ps ! i)) = resolved getPrice (symbol (ps ! i))"
    using assms by (intro priceMap_get) simp
  then have "updatePurchase ?M (ps ! i) =
             updatePurchase (\<lambda>k. if k = symbol (ps ! i) then Some (resolved getPrice k) else None) (ps ! i)"
    by (simp add: updatePurchase_def Map_get_def)
  ultimately show ?thesis using assms by simp
qed

lemma updatePurchase_known:
  assumes "Map_get priceMap (symbol p) = Some cp" "cp \<noteq> 0"
      and "purchase_price_usd p = Some pp" "pp \<noteq> 0"
  shows "updatePurchase priceMap p =
           p\<lparr>currentPrice := Some cp, profitLoss := Some ((cp - pp) * amount p),
             profitLossPercent := Some ((cp - pp) / pp * 100)\<rparr>"
  using assms by (simp add: updatePurchase_def truthy_def)

lemma updatePurchase_unknown:
  assumes "\<not> truthy (Map_get priceMap (symbol p)) \<or> \<not> truthy (purchase_price_usd p)"
  shows "updatePurchase priceMap p = p"
  using assms by (auto simp: updatePurchase_def)

text \<open>
  C2 (amended). For every record of the input whose symbol's fetch returned a price other
  than 0 and whose stored purchase price is present and other than 0, the pass sets
  \<open>currentPrice\<close> to the fetched price, \<open>profitLoss\<close> to
  \<open>(currentPrice - purchase_price_usd) * amount\<close> and \<open>profitLossPercent\<close> to
  \<open>(currentPrice - purchase_price_usd) / purchase_price_usd * 100\<close>, leaving the other
  members as they were. At purchase price 100, amount 2 and current price 150 this gives
  100 and 50.
\<close>

theorem C2_profit_loss:
  assumes "i < length ps"
      and "getPrice (symbol (ps ! i)) = Inr cp" "cp \<noteq> 0"
      and "purchase_price_usd (ps ! i) = Some pp" "pp \<noteq> 0"
  shows "\<exists>st'. fetchCurrentPrices getPrice ps st = Inr st' \<and>
           purchases st' ! i =
             (ps ! i)\<lparr>currentPrice := Some cp,
                      profitLoss := Some ((cp - pp) * amount (ps ! i)),
                      profitLossPercent := Some ((cp - pp) / pp * 100)\<rparr>"
proof -
  let ?M = "\<lambda>k. if k = symbol (ps ! i) then Some (resolved getPrice k) else None"
  from assms(1) obtain st' where st': "fetchCurrentPrices getPrice ps st = Inr st'"
    and nth: "purchases st' ! i = updatePurchase ?M (ps ! i)"
    using fetchCurrentPrices_nth by blast
  have "Map_get ?M (symbol (ps ! i)) = Some cp"
    using assms(2) by (simp add: Map_get_def resolved_def)
  then have "updatePurchase ?M (ps ! i) =
             (ps ! i)\<lparr>currentPrice := Some cp,
                      profitLoss := Some ((cp - pp) * amount (ps ! i)),
                      profitLossPercent := Some ((cp - pp) / pp * 100)\<rparr>"
    using assms(3-5) by (rule updatePurchase_known)
  with st' nth show ?thesis by simp
qed

theorem C2_profit_loss_witness:
  "\<exists>st'. fetchCurrentPrices (only_btc 150) [row ''1'' ''BTC'' 2 (Some 100)] st0 = Inr st' \<and>
     map currentPrice (purchases st') = [Some 150] \<and>
     map profitLoss (purchases st') = [Some 100] \<and>
     map profitLossPercent (purchases st') = [Some 50]"
proof -
  let ?ps = "[row ''1'' ''BTC'' 2 (Some 100)]"
  have "0 < length ?ps" by simp
  moreover have "only_btc 150 (symbol (?ps ! 0)) = Inr 150"
    by (simp add: only_btc_def row_def)
  moreover have "(150::real) \<noteq> 0" by simp
  moreover have "purchase_price_usd (?ps ! 0) = Some 100"
    by (simp add: row_def)
  moreover have "(100::real) \<noteq> 0" by simp
  ultimately obtain st' where
    "fetchCurrentPrices (only_btc 150) ?ps st0 = Inr st'"
    "purchases st' ! 0 =
       (?ps ! 0)\<lparr>currentPrice := Some 150,
                 profitLoss := Some ((150 - 100) * amount (?ps ! 0)),
                 profitLossPercent := Some ((150 - 100) / 100 * 100)\<rparr>"
    "length (purchases st') = 1"
    using C2_profit_loss [of 0 ?ps "only_btc 150" 150 100 st0]
    by (auto simp: fetchCurrentPrices_def fetchPrices_eq)
  then show ?thesis
    by (cases "purchases st'") (auto simp: row_def)
qed

text \<open>
  The claim as first worded asks only that both prices be known. A stored purchase price
  of 0 is a known price, and the guard \<open>currentPrice && purchase.purchase_price_usd\<close>
  is false on it: with BTC fetched at 150 the record comes back without \<open>profitLoss\<close>
  and \<open>profitLossPercent\<close>, where the formulas give 300 for the first. The same holds
  for a fetched price of 0 against a purchase price of 100, where the formulas give
  -200 and -100.
\<close>

theorem C2_zero_price_counterexample:
  "purchase_price_usd (row ''1'' ''BTC'' 2 (Some 0)) = Some 0 \<and>
   only_btc 150 (symbol (row ''1'' ''BTC'' 2 (Some 0))) = Inr 150 \<and>
   fetchCurrentPrices (only_btc 150) [row ''1'' ''BTC'' 2 (Some 0)] st0 =
     Inr (st0\<lparr>purchases := [row ''1'' ''BTC'' 2 (Some 0)]\<rparr>) \<and>
   profitLoss (row ''1'' ''BTC'' 2 (Some 0)) = None \<and>
   profitLossPercent (row ''1'' ''BTC'' 2 (Some 0)) = None \<and>
   purchase_price_usd (row ''1'' ''BTC'' 2 (Some 100)) = Some 100 \<and>
   only_btc 0 (symbol (row ''1'' ''BTC'' 2 (Some 100))) = Inr 0 \<and>
   fetchCurrentPrices (only_btc 0) [row ''1'' ''BTC'' 2 (Some 100)] st0 =
     Inr (st0\<lparr>purchases := [row ''1'' ''BTC'' 2 (Some 100)]\<rparr>) \<and>
   profitLoss (row ''1'' ''BTC'' 2 (Some 100)) = None \<and>
   profitLossPercent (row ''1'' ''BTC'' 2 (Some 100)) = None"
  by (simp add: fetchCurrentPrices_def fetchPrices_eq Set_values_def Set_add_def Map_new_def
      updatePurchase_def Map_get_def resolved_def truthy_def row_def only_btc_def st0_def)


section \<open>Records that carry derived values from an earlier pass\<close>

text \<open>
  C4. A first pass with BTC at 150 and the ETH fetch failing values the BTC record. The
  user deletes the ETH record: the displayed list is the valued BTC record alone, its
  length has changed, and the interval effect starts a timer whose callback holds that
  list. A pass of that timer in which the BTC fetch fails returns the record unchanged
  (\<open>return purchase\<close>), so it still shows the current price 150, profit 100 and 50
  percent of the first pass rather than three absent members.
\<close>

theorem C4_stale_values_kept:
  "fetchCurrentPrices (only_btc 150)
      [row ''1'' ''BTC'' 2 (Some 100), row ''2'' ''ETH'' 1 (Some 10)] st0 = Inr two_rows \<and>
   d_state (handleDelete True store_ok ''2'' two_rows) = st0\<lparr>purchases := [valued_row]\<rparr> \<and>
   active (renders [[], [row ''1'' ''BTC'' 2 (Some 100), row ''2'' ''ETH'' 1 (Some 10)],
                     purchases two_rows, [valued_row]]) = [(1, [valued_row])] \<and>
   fetchCurrentPrices all_fail [valued_row] (st0\<lparr>purchases := [valued_row]\<rparr>) =
     Inr (st0\<lparr>purchases := [valued_row]\<rparr>) \<and>
   currentPrice valued_row = Some 150 \<and>
   profitLoss valued_row = Some 100 \<and>
   profitLossPercent valued_row = Some 50"
proof (intro conjI)
  show "fetchCurrentPrices (only_btc 150)
      [row ''1'' ''BTC'' 2 (Some 100), row ''2'' ''ETH'' 1 (Some 10)] st0 = Inr two_rows"
    by (simp add: fetchCurrentPrices_def fetchPrices_eq Set_values_def Set_add_def Map_new_def
      updatePurchase_def Map_get_def resolved_def truthy_def row_def only_btc_def st0_def
      valued_row_def two_rows_def)
  show "d_state (handleDelete True store_ok ''2'' two_rows) = st0\<lparr>purchases := [valued_row]\<rparr>"
    by (simp add: handleDelete_def store_ok_def two_rows_def valued_row_def row_def)
  show "active (renders [[], [row ''1'' ''BTC'' 2 (Some 100), row ''2'' ''ETH'' 1 (Some 10)],
                     purchases two_rows, [valued_row]]) = [(1, [valued_row])]"
    by (simp add: renders_def commit_def mount_def interval_effect_def run_cleanup_def
      setInterval_def clearInterval_def two_rows_def)
  show "fetchCurrentPrices all_fail [valued_row] (st0\<lparr>purchases := [valued_row]\<rparr>) =
     Inr (st0\<lparr>purchases := [valued_row]\<rparr>)"
    by (simp add: fetchCurrentPrices_def fetchPrices_eq Set_values_def Set_add_def Map_new_def
      updatePurchase_def Map_get_def resolved_def truthy_def row_def st0_def
      valued_row_def all_fail_def)
qed (simp_all add: valued_row_def)


section \<open>Portfolio totals\<close>

lemma foldl_price_sum:
  "foldl (\<lambda>sum p. (case f p of
                        Some c \<Rightarrow> if c \<noteq> 0 then sum + c * w p else sum
                      | None \<Rightarrow> sum)) (a::real) ps =
     a + sum_list (map (\<lambda>p. the (f p) * w p) (filter (\<lambda>p. truthy (f p)) ps))"
  by (induction ps arbitrary: a) (auto simp: truthy_def split: option.splits)

lemma totalValue_sum:
  "totalValue ps =
     sum_list (map (\<lambda>p. the (currentPrice p) * amount p) (filter (\<lambda>p. truthy (currentPrice p)) ps))"
  by (simp add: totalValue_def foldl_price_sum)

lemma totalCost_sum:
  "totalCost ps =
     sum_list (map (\<lambda>p. the (purchase_price_usd p) * amount p)
       (filter (\<lambda>p. truthy (purchase_price_usd p)) ps))"
  by (simp add: totalCost_def foldl_price_sum)

lemma sum_known_eq_sum_truthy:
  "sum_list (map (\<lambda>p. the (f p) * (w p :: real)) (filter (\<lambda>p. f p \<noteq> None) ps)) =
   sum_list (map (\<lambda>p. the (f p) * w p) (filter (\<lambda>p. truthy (f p)) ps))"
  by (induction ps) (auto simp: truthy_def)

lemma totalValue_skip:
  "\<not> truthy (currentPrice p) \<Longrightarrow> totalValue (xs @ p # ys) = totalValue (xs @ ys)"
  by (simp add: totalValue_sum)

lemma totalCost_skip:
  "\<not> truthy (purchase_price_usd p) \<Longrightarrow> totalCost (xs @ p # ys) = totalCost (xs @ ys)"
  by (simp add: totalCost_sum)

lemma totalCost_count:
  "purchase_price_usd q = Some pp \<Longrightarrow>
     totalCost (xs @ q # ys) = totalCost (xs @ ys) + pp * amount q"
  by (simp add: totalCost_sum truthy_def)

text \<open>
  C3 (amended). For every list of valued positions: \<open>totalValue\<close> is the sum of
  \<open>currentPrice * amount\<close> over the positions with a known current price;
  \<open>totalCost\<close> is the sum of \<open>purchase_price_usd * amount\<close> over the positions
  with a known purchase price; \<open>totalProfitLoss = totalValue - totalCost\<close>;
  \<open>totalProfitLossPercent\<close> is \<open>totalProfitLoss / totalCost * 100\<close> when
  \<open>totalCost > 0\<close> and exactly 0 otherwise. A position without a current price adds
  nothing to \<open>totalValue\<close> and one without a purchase price adds nothing to
  \<open>totalCost\<close>; a position that lacks only its current price still adds its cost
  to \<open>totalCost\<close>.
\<close>

theorem C3_snapshot_amended:
  "totalValue ps =
     (\<Sum>p\<leftarrow>filter (\<lambda>p. currentPrice p \<noteq> None) ps. the (currentPrice p) * amount p) \<and>
   totalCost ps =
     (\<Sum>p\<leftarrow>filter (\<lambda>p. purchase_price_usd p \<noteq> None) ps. the (purchase_price_usd p) * amount p) \<and>
   totalProfitLoss ps = totalValue ps - totalCost ps \<and>
   totalProfitLossPercent ps =
     (if totalCost ps > 0 then totalProfitLoss ps / totalCost ps * 100 else 0) \<and>
   (currentPrice q = None \<longrightarrow> totalValue (xs @ q # ys) = totalValue (xs @ ys)) \<and>
   (purchase_price_usd q = None \<longrightarrow> totalCost (xs @ q # ys) = totalCost (xs @ ys)) \<and>
   (currentPrice q = None \<and> purchase_price_usd q = Some pp \<longrightarrow>
      totalCost (xs @ q # ys) = totalCost (xs @ ys) + pp * amount q)"
proof (intro conjI impI)
  show "totalValue ps =
     (\<Sum>p\<leftarrow>filter (\<lambda>p. currentPrice p \<noteq> None) ps. the (currentPrice p) * amount p)"
    by (simp only: totalValue_sum sum_known_eq_sum_truthy)
  show "totalCost ps =
     (\<Sum>p\<leftarrow>filter (\<lambda>p. purchase_price_usd p \<noteq> None) ps. the (purchase_price_usd p) * amount p)"
    by (simp only: totalCost_sum sum_known_eq_sum_truthy)
  show "totalProfitLoss ps = totalValue ps - totalCost ps"
    by (simp add: totalProfitLoss_def)
  show "totalProfitLossPercent ps =
     (if totalCost ps > 0 then totalProfitLoss ps / totalCost ps * 100 else 0)"
    by (simp add: totalProfitLossPercent_def)
  show "totalValue (xs @ q # ys) = totalValue (xs @ ys)" if "currentPrice q = None"
    using that by (simp add: totalValue_skip truthy_def)
  show "totalCost (xs @ q # ys) = totalCost (xs @ ys)" if "purchase_price_usd q = None"
    using that by (simp add: totalCost_skip truthy_def)
  show "totalCost (xs @ q # ys) = totalCost (xs @ ys) + pp * amount q"
    if "currentPrice q = None \<and> purchase_price_usd q = Some pp"
    using that by (simp add: totalCost_count)
qed

theorem C3_snapshot_amended_witness:
  "totalValue [valued_row, row ''2'' ''ETH'' 1 (Some 10)] = 300 \<and>
   totalCost [valued_row, row ''2'' ''ETH'' 1 (Some 10)] = 210 \<and>
   totalProfitLossPercent [row ''5'' ''SOL'' 1 None] = 0 \<and>
   totalValue ([valued_row] @ row ''2'' ''ETH'' 1 (Some 10) # []) = totalValue ([valued_row] @ []) \<and>
   totalCost ([valued_row] @ row ''2'' ''ETH'' 1 (Some 10) # []) =
     totalCost ([valued_row] @ []) + 10 * 1 \<and>
   totalCost ([valued_row] @ row ''5'' ''SOL'' 1 None # []) = totalCost ([valued_row] @ [])"
proof -
  let ?eth = "row ''2'' ''ETH'' 1 (Some 10)" and ?sol = "row ''5'' ''SOL'' 1 None"
  have eth: "currentPrice ?eth = None" "purchase_price_usd ?eth = Some 10" "amount ?eth = 1"
    and sol: "currentPrice ?sol = None" "purchase_price_usd ?sol = None"
    by (simp_all add: row_def)
  note a = C3_snapshot_amended [of "[valued_row, ?eth]" ?eth "[valued_row]" "[]" 10]
  note b = C3_snapshot_amended [of "[?sol]" ?sol "[valued_row]" "[]" 0]
  have 1: "totalValue [valued_row, ?eth] = 300"
    using a by (simp add: valued_row_def row_def)
  have 2: "totalCost [valued_row, ?eth] = 210"
    using a by (simp add: valued_row_def row_def)
  have "totalCost [?sol] = 0"
    using b by (simp add: row_def)
  then have 3: "totalProfitLossPercent [?sol] = 0"
    using b by simp
  have 4: "totalValue ([valued_row] @ ?eth # []) = totalValue ([valued_row] @ [])"
    using a eth by blast
  have 5: "totalCost ([valued_row] @ ?eth # []) = totalCost ([valued_row] @ []) + 10 * 1"
    using a eth by simp
  have 6: "totalCost ([valued_row] @ ?sol # []) = totalCost ([valued_row] @ [])"
    using b sol by blast
  from 1 2 3 4 5 6 show ?thesis by blast
qed

text \<open>
  The claim as first worded fails in two places. The guard of the percentage is
  \<open>totalCost > 0\<close>, not \<open>totalCost = 0\<close>: a record with amount -1 bought at 100
  and valued at 150 has \<open>totalCost = -100\<close>, the quotient is 50, and the summary
  shows 0. And a position without a current price is not left out of \<open>totalCost\<close>:
  the ETH row below has no current price and still adds 10.
\<close>

theorem C3_snapshot_counterexample:
  "fetchCurrentPrices (only_btc 150) [row ''3'' ''BTC'' (- 1) (Some 100)] st0 =
     Inr (st0\<lparr>purchases := [short_row]\<rparr>) \<and>
   totalCost [short_row] = - 100 \<and>
   totalProfitLoss [short_row] / totalCost [short_row] * 100 = 50 \<and>
   totalProfitLossPercent [short_row] = 0 \<and>
   currentPrice (row ''2'' ''ETH'' 1 (Some 10)) = None \<and>
   totalCost [row ''2'' ''ETH'' 1 (Some 10)] = 10 \<and>
   totalCost [] = 0"
  by (simp add: fetchCurrentPrices_def fetchPrices_eq Set_values_def Set_add_def Map_new_def
      updatePurchase_def Map_get_def resolved_def truthy_def row_def only_btc_def st0_def
      short_row_def totalCost_def totalValue_def totalProfitLoss_def totalProfitLossPercent_def)


section \<open>Failures of \<open>getCurrentPrice\<close>\<close>

lemma getCoinId_BTC: "getCoinId ''BTC'' = ''bitcoin''"
  by code_simp

lemma getCoinId_0: "getCoinId ''0'' = ''0''"
  by code_simp

lemma array_index_usd: "array_index ''usd'' = None"
  by (simp add: array_index_def is_digit_def)

lemma array_index_0: "array_index ''0'' = Some 0"
  by (simp add: array_index_def is_digit_def)

lemma get_prop_usd_object:
  "get_prop d ''usd'' = Inr (Some v) \<longleftrightarrow> (\<exists>ekvs. d = JObject ekvs \<and> member ekvs ''usd'' = Some v)"
  by (cases d) (auto simp: array_index_usd)

lemma get_prop_usd_truthy:
  "get_prop d ''usd'' = Inr (Some v) \<Longrightarrow> truthy_json (Some d)"
  by (auto simp: get_prop_usd_object)

lemma getCurrentPrice_Inr:
  "getCurrentPrice fetch sy = Inr v \<longleftrightarrow>
     (\<exists>status data d.
        fetch (price_url (getCoinId sy)) = Response True status (Inr data) \<and>
        get_prop data (getCoinId sy) = Inr (Some d) \<and>
        get_prop d ''usd'' = Inr (Some v) \<and> truthy_json (Some v))"
proof (cases "fetch (price_url (getCoinId sy))")
  case (Rejected e)
  then show ?thesis by (simp add: getCurrentPrice_def Let_def)
next
  case (Response ok status body)
  show ?thesis
  proof (cases "ok \<and> (\<exists>data. body = Inr data)")
    case False
    with Response show ?thesis
      by (cases body) (auto simp: getCurrentPrice_def Let_def)
  next
    case True
    then obtain data where body: "body = Inr data" and ok: ok by blast
    show ?thesis
    proof (cases "get_prop data (getCoinId sy)")
      case (Inl e)
      with Response body ok show ?thesis
        by (simp add: getCurrentPrice_def Let_def)
    next
      case (Inr dataCoin)
      show ?thesis
      proof (cases dataCoin)
        case None
        with Response body ok Inr show ?thesis
          by (simp add: getCurrentPrice_def Let_def)
      next
        case (Some d)
        show ?thesis
        proof (cases "get_prop d ''usd''")
          case (Inl e)
          with Response body ok Inr Some show ?thesis
            by (simp add: getCurrentPrice_def Let_def)
        next
          case usd: (Inr u)
          show ?thesis
          proof (cases u)
            case None
            with Response body ok Inr Some usd show ?thesis
              by (simp add: getCurrentPrice_def Let_def)
          next
            case (Some w)
            with usd have "truthy_json (Some d)"
              by (simp add: get_prop_usd_truthy)
            with Response body ok Inr \<open>dataCoin = Some d\<close> usd Some show ?thesis
              by (auto simp: getCurrentPrice_def Let_def)
          qed
        qed
      qed
    qed
  qed
qed

lemma price_field_read:
  assumes "price_field data coinId = Some x"
  shows "\<exists>d. get_prop data coinId = Inr (Some d) \<and> get_prop d ''usd'' = Inr (Some (JNumber x))"
  using assms
  by (auto simp: price_field_def split: json.splits option.splits)

text \<open>
  C5 (amended). \<open>getCurrentPrice\<close> returns \<open>v\<close> exactly when \<open>fetch\<close> resolved to a
  response with \<open>ok\<close> set, the body parsed, and the two reads \<open>data[coinId]\<close> and
  \<open>.usd\<close> of it gave \<open>v\<close> with \<open>v\<close> truthy (for a number: not 0); in every other case,
  and in no other, it fails. In particular it returns the price whenever the body has
  the expected shape \<open>{ [id]: { usd: number } }\<close> for the resolved oracle id with a
  number other than 0, and it fails with the thrown error when the request is rejected,
  with "API returned ..." when the response is not \<open>ok\<close>, and with the parser's error
  when the body is not JSON.
\<close>

theorem C5_price_unavailable:
  "(getCurrentPrice fetch sy = Inr v \<longleftrightarrow>
      (\<exists>status data d.
         fetch (price_url (getCoinId sy)) = Response True status (Inr data) \<and>
         get_prop data (getCoinId sy) = Inr (Some d) \<and>
         get_prop d ''usd'' = Inr (Some v) \<and> truthy_json (Some v))) \<and>
   ((\<exists>e. getCurrentPrice fetch sy = Inl e) \<longleftrightarrow>
      \<not> (\<exists>status data d v.
         fetch (price_url (getCoinId sy)) = Response True status (Inr data) \<and>
         get_prop data (getCoinId sy) = Inr (Some d) \<and>
         get_prop d ''usd'' = Inr (Some v) \<and> truthy_json (Some v))) \<and>
   (fetch (price_url (getCoinId sy)) = Response True status (Inr data) \<and>
      price_field data (getCoinId sy) = Some x \<and> x \<noteq> 0 \<longrightarrow>
      getCurrentPrice fetch sy = Inr (JNumber x)) \<and>
   (fetch (price_url (getCoinId sy)) = Rejected err \<longrightarrow>
      getCurrentPrice fetch sy = Inl err) \<and>
   (fetch (price_url (getCoinId sy)) = Response False status body \<longrightarrow>
      getCurrentPrice fetch sy = Inl (Error (''API returned '' @ status))) \<and>
   (fetch (price_url (getCoinId sy)) = Response True status (Inl err) \<longrightarrow>
      getCurrentPrice fetch sy = Inl err)"
proof (intro conjI impI)
  show "getCurrentPrice fetch sy = Inr v \<longleftrightarrow>
      (\<exists>status data d.
         fetch (price_url (getCoinId sy)) = Response True status (Inr data) \<and>
         get_prop data (getCoinId sy) = Inr (Some d) \<and>
         get_prop d ''usd'' = Inr (Some v) \<and> truthy_json (Some v))"
    by (rule getCurrentPrice_Inr)
  have "(\<exists>e. getCurrentPrice fetch sy = Inl e) \<longleftrightarrow> \<not> (\<exists>v. getCurrentPrice fetch sy = Inr v)"
    by (cases "getCurrentPrice fetch sy") auto
  then show "(\<exists>e. getCurrentPrice fetch sy = Inl e) \<longleftrightarrow>
      \<not> (\<exists>status data d v.
         fetch (price_url (getCoinId sy)) = Response True status (Inr data) \<and>
         get_prop data (getCoinId sy) = Inr (Some d) \<and>
         get_prop d ''usd'' = Inr (Some v) \<and> truthy_json (Some v))"
    unfolding getCurrentPrice_Inr by blast
next
  assume a: "fetch (price_url (getCoinId sy)) = Response True status (Inr data) \<and>
      price_field data (getCoinId sy) = Some x \<and> x \<noteq> 0"
  then obtain d where "get_prop data (getCoinId sy) = Inr (Some d)"
      "get_prop d ''usd'' = Inr (Some (JNumber x))"
    using price_field_read by blast
  with a show "getCurrentPrice fetch sy = Inr (JNumber x)"
    unfolding getCurrentPrice_Inr by auto
next
  assume "fetch (price_url (getCoinId sy)) = Rejected err"
  then show "getCurrentPrice fetch sy = Inl err"
    by (simp add: getCurrentPrice_def Let_def)
next
  assume "fetch (price_url (getCoinId sy)) = Response False status body"
  then show "getCurrentPrice fetch sy = Inl (Error (''API returned '' @ status))"
    by (simp add: getCurrentPrice_def Let_def)
next
  assume "fetch (price_url (getCoinId sy)) = Response True status (Inl err)"
  then show "getCurrentPrice fetch sy = Inl err"
    by (simp add: getCurrentPrice_def Let_def)
qed

theorem C5_price_unavailable_witness:
  "getCurrentPrice price_fetch ''BTC'' = Inr (JNumber 150) \<and>
   \<not> (\<exists>e. getCurrentPrice price_fetch ''BTC'' = Inl e) \<and>
   getCurrentPrice timeout_fetch ''BTC'' = Inl (Error ''The operation timed out.'') \<and>
   getCurrentPrice status_429_fetch ''BTC'' = Inl (Error (''API returned '' @ ''429''))"
proof -
  let ?data = "JObject [(''bitcoin'', JObject [(''usd'', JNumber 150)])]"
  note ok = C5_price_unavailable [of price_fetch "''BTC''" "JNumber 150" "''200''" ?data 150]
  note rej = C5_price_unavailable [of timeout_fetch "''BTC''" _ _ _ _ "Error ''The operation timed out.''"]
  note bad = C5_price_unavailable [of status_429_fetch "''BTC''" _ "''429''" _ _ _ "Inr JNull"]
  have h: "price_fetch (price_url (getCoinId ''BTC'')) = Response True ''200'' (Inr ?data) \<and>
        price_field ?data (getCoinId ''BTC'') = Some 150 \<and> (150::real) \<noteq> 0"
    by (simp add: getCoinId_BTC price_fetch_def price_field_def member_def)
  with ok have 1: "getCurrentPrice price_fetch ''BTC'' = Inr (JNumber 150)"
    by blast
  then have 2: "\<not> (\<exists>e. getCurrentPrice price_fetch ''BTC'' = Inl e)"
    by simp
  have "timeout_fetch (price_url (getCoinId ''BTC'')) = Rejected (Error ''The operation timed out.'')"
    by (simp add: timeout_fetch_def)
  with rej have 3: "getCurrentPrice timeout_fetch ''BTC'' = Inl (Error ''The operation timed out.'')"
    by blast
  have "status_429_fetch (price_url (getCoinId ''BTC'')) = Response False ''429'' (Inr JNull)"
    by (simp add: status_429_fetch_def)
  with bad have 4: "getCurrentPrice status_429_fetch ''BTC'' = Inl (Error (''API returned '' @ ''429''))"
    by blast
  from 1 2 3 4 show ?thesis by blast
qed

text \<open>
  The claim as first worded fails in both directions. A successful response quoting
  \<open>usd: 0\<close> has the expected field, and \<open>!data[coinId].usd\<close> is true on it: the call
  fails with "Price not found". A successful response quoting the text \<open>"abc"\<close> under
  \<open>usd\<close>, and one whose body is the array \<open>[{"usd": 5}]\<close> asked for the symbol \<open>0\<close>
  (which resolves to the oracle id \<open>0\<close>, an index of the array), lack the expected
  field, and the call returns \<open>"abc"\<close> and 5: the checks test truthiness, not the shape.
\<close>

theorem C5_counterexample:
  "zero_price_fetch (price_url (getCoinId ''BTC'')) =
     Response True ''200'' (Inr (JObject [(''bitcoin'', JObject [(''usd'', JNumber 0)])])) \<and>
   price_field (JObject [(''bitcoin'', JObject [(''usd'', JNumber 0)])]) (getCoinId ''BTC'') = Some 0 \<and>
   getCurrentPrice zero_price_fetch ''BTC'' = Inl (price_not_found ''BTC'' ''bitcoin'') \<and>
   text_price_fetch (price_url (getCoinId ''BTC'')) =
     Response True ''200'' (Inr (JObject [(''bitcoin'', JObject [(''usd'', JString ''abc'')])])) \<and>
   price_field (JObject [(''bitcoin'', JObject [(''usd'', JString ''abc'')])]) (getCoinId ''BTC'') = None \<and>
   getCurrentPrice text_price_fetch ''BTC'' = Inr (JString ''abc'') \<and>
   array_fetch (price_url (getCoinId ''0'')) =
     Response True ''200'' (Inr (JArray [JObject [(''usd'', JNumber 5)]])) \<and>
   price_field (JArray [JObject [(''usd'', JNumber 5)]]) (getCoinId ''0'') = None \<and>
   getCurrentPrice array_fetch ''0'' = Inr (JNumber 5)"
  by (simp add: getCoinId_BTC getCoinId_0 zero_price_fetch_def text_price_fetch_def array_fetch_def
      price_field_def member_def getCurrentPrice_def Let_def array_index_0 array_index_usd)


section \<open>A price of zero counts as no price\<close>

lemma totalCost_contribution:
  "totalCost (xs @ q # ys) =
     totalCost (xs @ ys) + (case purchase_price_usd q of Some c \<Rightarrow> c * amount q | None \<Rightarrow> 0)"
  by (simp add: totalCost_sum truthy_def split: option.splits)

lemma fetchCurrentPrices_unchanged:
  assumes "i < length ps"
      and "\<not> truthy (resolved getPrice (symbol (ps ! i))) \<or> \<not> truthy (purchase_price_usd (ps ! i))"
  shows "\<exists>st'. fetchCurrentPrices getPrice ps st = Inr st' \<and> purchases st' ! i = ps ! i"
proof -
  let ?M = "\<lambda>k. if k = symbol (ps ! i) then Some (resolved getPrice k) else None"
  from assms(1) obtain st' where st': "fetchCurrentPrices getPrice ps st = Inr st'"
    and nth: "purchases st' ! i = updatePurchase ?M (ps ! i)"
    using fetchCurrentPrices_nth by blast
  have "updatePurchase ?M (ps ! i) = ps ! i"
    using assms(2) by (intro updatePurchase_unknown) (simp add: Map_get_def)
  with st' nth show ?thesis by simp
qed

text \<open>
  C10 (amended). A price of exactly 0 is handled like a missing one. \<open>getCurrentPrice\<close>
  fails with "Price not found" on a successful response whose \<open>usd\<close> field is the
  number 0. In a pass, a record that carries no derived members (a row as the store
  lists it) whose stored purchase price is 0 or whose fetched current price is 0 leaves
  the pass as it came, without \<open>currentPrice\<close>, \<open>profitLoss\<close> and
  \<open>profitLossPercent\<close>, and adds nothing to \<open>totalValue\<close>, exactly as one whose
  purchase price is \<open>null\<close> or whose fetch failed. To \<open>totalCost\<close> it adds its own
  \<open>purchase_price_usd * amount\<close>: nothing when the purchase price is 0 or \<open>null\<close>,
  and its cost when only the current price is 0 or missing.
\<close>

theorem C10_zero_is_unknown:
  "(fetch (price_url (getCoinId sy)) = Response True status (Inr data) \<and>
      price_field data (getCoinId sy) = Some 0 \<longrightarrow>
      getCurrentPrice fetch sy = Inl (price_not_found sy (getCoinId sy))) \<and>
   (i < length ps \<and>
      currentPrice (ps ! i) = None \<and> profitLoss (ps ! i) = None \<and>
      profitLossPercent (ps ! i) = None \<and>
      (purchase_price_usd (ps ! i) = Some 0 \<or> getPrice (symbol (ps ! i)) = Inr 0 \<or>
       purchase_price_usd (ps ! i) = None \<or> getPrice (symbol (ps ! i)) = Inl e) \<longrightarrow>
      (\<exists>st'. fetchCurrentPrices getPrice ps st = Inr st' \<and>
         purchases st' ! i = ps ! i \<and>
         currentPrice (purchases st' ! i) = None \<and>
         profitLoss (purchases st' ! i) = None \<and>
         profitLossPercent (purchases st' ! i) = None \<and>
         totalValue (xs @ (purchases st' ! i) # ys) = totalValue (xs @ ys) \<and>
         totalCost (xs @ (purchases st' ! i) # ys) =
           totalCost (xs @ ys) +
           (case purchase_price_usd (ps ! i) of
              Some c \<Rightarrow> c * amount (ps ! i)
            | None \<Rightarrow> 0)))"
proof (intro conjI impI)
  assume a: "fetch (price_url (getCoinId sy)) = Response True status (Inr data) \<and>
      price_field data (getCoinId sy) = Some 0"
  then obtain d where "get_prop data (getCoinId sy) = Inr (Some d)"
      "get_prop d ''usd'' = Inr (Some (JNumber 0))"
    using price_field_read by blast
  moreover from this have "truthy_json (Some d)"
    by (simp add: get_prop_usd_truthy)
  ultimately show "getCurrentPrice fetch sy = Inl (price_not_found sy (getCoinId sy))"
    using a by (simp add: getCurrentPrice_def Let_def)
next
  assume a: "i < length ps \<and>
      currentPrice (ps ! i) = None \<and> profitLoss (ps ! i) = None \<and>
      profitLossPercent (ps ! i) = None \<and>
      (purchase_price_usd (ps ! i) = Some 0 \<or> getPrice (symbol (ps ! i)) = Inr 0 \<or>
       purchase_price_usd (ps ! i) = None \<or> getPrice (symbol (ps ! i)) = Inl e)"
  then have "\<not> truthy (resolved getPrice (symbol (ps ! i))) \<or> \<not> truthy (purchase_price_usd (ps ! i))"
    by (auto simp: truthy_def resolved_def)
  with a obtain st' where st': "fetchCurrentPrices getPrice ps st = Inr st'"
    and same: "purchases st' ! i = ps ! i"
    using fetchCurrentPrices_unchanged [of i ps getPrice st] by blast
  from a have "\<not> truthy (currentPrice (ps ! i))"
    by (simp add: truthy_def)
  then have "totalValue (xs @ (ps ! i) # ys) = totalValue (xs @ ys)"
    by (rule totalValue_skip)
  with a st' same totalCost_contribution [of xs "ps ! i" ys]
  show "\<exists>st'. fetchCurrentPrices getPrice ps st = Inr st' \<and>
         purchases st' ! i = ps ! i \<and>
         currentPrice (purchases st' ! i) = None \<and>
         profitLoss (purchases st' ! i) = None \<and>
         profitLossPercent (purchases st' ! i) = None \<and>
         totalValue (xs @ (purchases st' ! i) # ys) = totalValue (xs @ ys) \<and>
         totalCost (xs @ (purchases st' ! i) # ys) =
           totalCost (xs @ ys) +
           (case purchase_price_usd (ps ! i) of
              Some c \<Rightarrow> c * amount (ps ! i)
            | None \<Rightarrow> 0)"
    by simp
qed

theorem C10_zero_is_unknown_witness:
  "getCurrentPrice zero_price_fetch ''BTC'' = Inl (price_not_found ''BTC'' (getCoinId ''BTC'')) \<and>
   (\<exists>st'. fetchCurrentPrices (only_btc 150) [row ''1'' ''BTC'' 2 (Some 0)] st0 = Inr st' \<and>
      currentPrice (purchases st' ! 0) = None \<and>
      profitLoss (purchases st' ! 0) = None \<and>
      profitLossPercent (purchases st' ! 0) = None \<and>
      totalValue ([] @ (purchases st' ! 0) # []) = totalValue ([] @ []) \<and>
      totalCost ([] @ (purchases st' ! 0) # []) = totalCost ([] @ []) + 0 * 2) \<and>
   (\<exists>st'. fetchCurrentPrices (only_btc 0) [row ''1'' ''BTC'' 2 (Some 100)] st0 = Inr st' \<and>
      currentPrice (purchases st' ! 0) = None \<and>
      profitLoss (purchases st' ! 0) = None \<and>
      profitLossPercent (purchases st' ! 0) = None \<and>
      totalValue ([] @ (purchases st' ! 0) # []) = totalValue ([] @ []) \<and>
      totalCost ([] @ (purchases st' ! 0) # []) = totalCost ([] @ []) + 100 * 2)"
proof -
  let ?data = "JObject [(''bitcoin'', JObject [(''usd'', JNumber 0)])]"
  let ?free = "[row ''1'' ''BTC'' 2 (Some 0)]"
  let ?dead = "[row ''1'' ''BTC'' 2 (Some 100)]"
  note t = C10_zero_is_unknown [of zero_price_fetch "''BTC''" "''200''" ?data 0 ?free "only_btc 150"
      "Error ''none''" st0 "[]" "[]"]
  note u = C10_zero_is_unknown [of zero_price_fetch "''BTC''" "''200''" ?data 0 ?dead "only_btc 0"
      "Error ''none''" st0 "[]" "[]"]
  have h1: "zero_price_fetch (price_url (getCoinId ''BTC'')) = Response True ''200'' (Inr ?data) \<and>
      price_field ?data (getCoinId ''BTC'') = Some 0"
    by (simp add: getCoinId_BTC zero_price_fetch_def price_field_def member_def)
  have h2: "0 < length ?free \<and> currentPrice (?free ! 0) = None \<and> profitLoss (?free ! 0) = None \<and>
      profitLossPercent (?free ! 0) = None \<and> purchase_price_usd (?free ! 0) = Some 0"
    by (simp add: row_def)
  have h3: "0 < length ?dead \<and> currentPrice (?dead ! 0) = None \<and> profitLoss (?dead ! 0) = None \<and>
      profitLossPercent (?dead ! 0) = None \<and> only_btc 0 (symbol (?dead ! 0)) = Inr 0"
    by (simp add: row_def only_btc_def)
  have pp: "(case purchase_price_usd (?free ! 0) of Some c \<Rightarrow> c * amount (?free ! 0) | None \<Rightarrow> 0) = 0 * 2"
    "(case purchase_price_usd (?dead ! 0) of Some c \<Rightarrow> c * amount (?dead ! 0) | None \<Rightarrow> 0) = 100 * 2"
    by (simp_all add: row_def)
  from t h1 have c1: "getCurrentPrice zero_price_fetch ''BTC'' =
      Inl (price_not_found ''BTC'' (getCoinId ''BTC''))"
    by blast
  from t h2 have c2: "\<exists>st'. fetchCurrentPrices (only_btc 150) ?free st0 = Inr st' \<and>
      currentPrice (purchases st' ! 0) = None \<and>
      profitLoss (purchases st' ! 0) = None \<and>
      profitLossPercent (purchases st' ! 0) = None \<and>
      totalValue ([] @ (purchases st' ! 0) # []) = totalValue ([] @ []) \<and>
      totalCost ([] @ (purchases st' ! 0) # []) = totalCost ([] @ []) + 0 * 2"
    unfolding pp [symmetric] by blast
  from u h3 have c3: "\<exists>st'. fetchCurrentPrices (only_btc 0) ?dead st0 = Inr st' \<and>
      currentPrice (purchases st' ! 0) = None \<and>
      profitLoss (purchases st' ! 0) = None \<and>
      profitLossPercent (purchases st' ! 0) = None \<and>
      totalValue ([] @ (purchases st' ! 0) # []) = totalValue ([] @ []) \<and>
      totalCost ([] @ (purchases st' ! 0) # []) = totalCost ([] @ []) + 100 * 2"
    unfolding pp [symmetric] by blast
  from c1 c2 c3 show ?thesis by blast
qed

text \<open>
  The claim as first worded has such a record add nothing to either total. With the
  oracle quoting \<open>usd: 0\<close> the fetch fails, the row bought at 100 comes back as it went
  in, and it adds 200 to \<open>totalCost\<close>, as a row with a missing current price does. The
  second half below is the record of C4: it carries the values of an earlier pass, the
  same failed fetch returns it unchanged, and it keeps profit 100 and adds 300 to
  \<open>totalValue\<close>. The amended statement says nothing about records that carry derived
  members.
\<close>

theorem C10_counterexample:
  "getCurrentPrice zero_price_fetch ''BTC'' = Inl (price_not_found ''BTC'' (getCoinId ''BTC'')) \<and>
   usd_zero (symbol (row ''1'' ''BTC'' 2 (Some 100))) =
     Inl (price_not_found ''BTC'' (getCoinId ''BTC'')) \<and>
   fetchCurrentPrices usd_zero [row ''1'' ''BTC'' 2 (Some 100)] st0 =
     Inr (st0\<lparr>purchases := [row ''1'' ''BTC'' 2 (Some 100)]\<rparr>) \<and>
   totalCost [row ''1'' ''BTC'' 2 (Some 100)] = 200 \<and>
   totalCost [] = 0 \<and>
   usd_zero (symbol valued_row) = Inl (price_not_found ''BTC'' (getCoinId ''BTC'')) \<and>
   fetchCurrentPrices usd_zero [valued_row] (st0\<lparr>purchases := [valued_row]\<rparr>) =
     Inr (st0\<lparr>purchases := [valued_row]\<rparr>) \<and>
   profitLoss valued_row = Some 100 \<and>
   profitLossPercent valued_row = Some 50 \<and>
   totalValue [valued_row] = 300"
  by (simp add: getCoinId_BTC zero_price_fetch_def member_def getCurrentPrice_def Let_def
      fetchCurrentPrices_def fetchPrices_eq Set_values_def Set_add_def Map_new_def
      updatePurchase_def Map_get_def resolved_def truthy_def row_def usd_zero_def st0_def
      valued_row_def totalCost_def totalValue_def)


section \<open>Deleting a purchase\<close>

lemma filter_distinct_id:
  assumes "distinct (map id' (xs @ p # ys))"
  shows "filter (\<lambda>q. id' q \<noteq> id' p) (xs @ p # ys) = xs @ ys"
proof -
  from assms have "id' p \<notin> id' ` set xs" "id' p \<notin> id' ` set ys"
    by auto
  then have "\<forall>q \<in> set xs. id' q \<noteq> id' p" "\<forall>q \<in> set ys. id' q \<noteq> id' p"
    by (metis imageI)+
  then show ?thesis by simp
qed

text \<open>
  C7. After the user confirms, the handler sends one delete request for the id and
  nothing else to the store. When the store reports no error, the displayed list
  becomes the previous list without the records of that id, the rest of the state and
  the order of the other records unchanged; with the ids of the list distinct and the
  list being \<open>xs @ p # ys\<close> for the record \<open>p\<close> of that id, the new list is
  \<open>xs @ ys\<close>. When the store reports an error, the state is exactly what it was and
  the error is shown in an alert.
\<close>

theorem C7_delete:
  "(delete ident = None \<longrightarrow>
      d_state (handleDelete True delete ident st) =
        st\<lparr>purchases := filter (\<lambda>q. id' q \<noteq> ident) (purchases st)\<rparr> \<and>
      (distinct (map id' (purchases st)) \<and> purchases st = xs @ p # ys \<and> id' p = ident \<longrightarrow>
         purchases (d_state (handleDelete True delete ident st)) = xs @ ys) \<and>
      d_calls (handleDelete True delete ident st) = [Store_delete ident] \<and>
      d_alert (handleDelete True delete ident st) = None) \<and>
   (delete ident = Some err \<longrightarrow>
      d_state (handleDelete True delete ident st) = st \<and>
      d_calls (handleDelete True delete ident st) = [Store_delete ident] \<and>
      d_alert (handleDelete True delete ident st) =
        Some (error_text ''Failed to delete purchase'' err))"
proof (intro conjI impI)
  assume "distinct (map id' (purchases st)) \<and> purchases st = xs @ p # ys \<and> id' p = ident"
    and "delete ident = None"
  then show "purchases (d_state (handleDelete True delete ident st)) = xs @ ys"
    using filter_distinct_id [of xs p ys] by (auto simp: handleDelete_def)
qed (simp_all add: handleDelete_def)

theorem C7_delete_witness:
  "purchases (d_state (handleDelete True store_ok ''1'' two_rows)) = [row ''2'' ''ETH'' 1 (Some 10)] \<and>
   d_calls (handleDelete True store_ok ''1'' two_rows) = [Store_delete ''1''] \<and>
   d_state (handleDelete True store_down ''1'' two_rows) = two_rows \<and>
   d_alert (handleDelete True store_down ''1'' two_rows) = Some ''Failed to delete purchase''"
proof -
  note ok = C7_delete [of store_ok "''1''" two_rows "[]" valued_row "[row ''2'' ''ETH'' 1 (Some 10)]"]
  note down = C7_delete [of store_down "''1''" two_rows _ _ _ "NonError ''permission denied''"]
  have h: "store_ok ''1'' = None" "store_down ''1'' = Some (NonError ''permission denied'')"
    by (simp_all add: store_ok_def store_down_def)
  have d: "distinct (map id' (purchases two_rows)) \<and>
           purchases two_rows = [] @ valued_row # [row ''2'' ''ETH'' 1 (Some 10)] \<and>
           id' valued_row = ''1''"
    by (simp add: two_rows_def valued_row_def row_def)
  from ok h(1) d have 1: "purchases (d_state (handleDelete True store_ok ''1'' two_rows)) =
      [] @ [row ''2'' ''ETH'' 1 (Some 10)]"
    by blast
  from ok h(1) have 2: "d_calls (handleDelete True store_ok ''1'' two_rows) = [Store_delete ''1'']"
    by blast
  from down h(2) have 3: "d_state (handleDelete True store_down ''1'' two_rows) = two_rows"
    and 4: "d_alert (handleDelete True store_down ''1'' two_rows) =
         Some (error_text ''Failed to delete purchase'' (NonError ''permission denied''))"
    by blast+
  from 1 2 3 4 show ?thesis by (simp add: error_text_def)
qed


section \<open>Adding a purchase\<close>

lemma handleSubmit_invalid:
  assumes "\<not> validateSymbol (f_symbol st)"
  shows "handleSubmit newDate parseFloat getHistoricalPrice insert_row st =
           \<lparr>s_state = st\<lparr>f_error := not_supported_text (f_symbol st)\<rparr>,
            s_calls = [], s_purchaseAdded = False\<rparr>"
  using assms by (simp add: handleSubmit_def)

lemma handleSubmit_fetch_failed:
  assumes "validateSymbol (f_symbol st)"
      and "getHistoricalPrice (f_symbol st) (purchaseDateTime_of newDate st) = Inl err"
  shows "handleSubmit newDate parseFloat getHistoricalPrice insert_row st =
           \<lparr>s_state = st\<lparr>f_error := error_text ''Failed to add purchase'' err, f_loading := False\<rparr>,
            s_calls = [Oracle_history (f_symbol st) (purchaseDateTime_of newDate st)],
            s_purchaseAdded = False\<rparr>"
  using assms by (simp add: handleSubmit_def purchaseDateTime_of_def Let_def)

lemma handleSubmit_date_failed:
  assumes "validateSymbol (f_symbol st)"
      and "getHistoricalPrice (f_symbol st) (purchaseDateTime_of newDate st) = Inr h"
      and "toISOString (purchaseDateTime_of newDate st) = Inl err"
  shows "handleSubmit newDate parseFloat getHistoricalPrice insert_row st =
           \<lparr>s_state = st\<lparr>f_error := error_text ''Failed to add purchase'' err, f_loading := False\<rparr>,
            s_calls = [Oracle_history (f_symbol st) (purchaseDateTime_of newDate st)],
            s_purchaseAdded = False\<rparr>"
  using assms by (simp add: handleSubmit_def purchaseDateTime_of_def Let_def)

lemma handleSubmit_store_failed:
  assumes "validateSymbol (f_symbol st)"
      and "getHistoricalPrice (f_symbol st) (purchaseDateTime_of newDate st) = Inr h"
      and "toISOString (purchaseDateTime_of newDate st) = Inr isoText"
      and "insert_row (submitted_row parseFloat st isoText h) = Some dbError"
  shows "handleSubmit newDate parseFloat getHistoricalPrice insert_row st =
           \<lparr>s_state = st\<lparr>f_error := error_text ''Failed to add purchase'' dbError, f_loading := False\<rparr>,
            s_calls = [Oracle_history (f_symbol st) (purchaseDateTime_of newDate st),
                       Store_insert (submitted_row parseFloat st isoText h)],
            s_purchaseAdded = False\<rparr>"
  using assms by (simp add: handleSubmit_def purchaseDateTime_of_def submitted_row_def Let_def)

lemma handleSubmit_success:
  assumes "validateSymbol (f_symbol st)"
      and "getHistoricalPrice (f_symbol st) (purchaseDateTime_of newDate st) = Inr h"
      and "toISOString (purchaseDateTime_of newDate st) = Inr isoText"
      and "insert_row (submitted_row parseFloat st isoText h) = None"
  shows "handleSubmit newDate parseFloat getHistoricalPrice insert_row st =
           \<lparr>s_state = st\<lparr>f_symbol := [], f_purchaseDate := [], f_purchaseTime := ''12:00'',
                         f_amount := [], f_loading := False, f_error := []\<rparr>,
            s_calls = [Oracle_history (f_symbol st) (purchaseDateTime_of newDate st),
                       Store_insert (submitted_row parseFloat st isoText h)],
            s_purchaseAdded = True\<rparr>"
  using assms by (simp add: handleSubmit_def purchaseDateTime_of_def submitted_row_def Let_def)

text \<open>The five ways through the handler.\<close>

lemma handleSubmit_cases:
  obtains (invalid) "\<not> validateSymbol (f_symbol st)"
  | (fetch_failed) err where "validateSymbol (f_symbol st)"
      "getHistoricalPrice (f_symbol st) (purchaseDateTime_of newDate st) = Inl err"
  | (date_failed) h err where "validateSymbol (f_symbol st)"
      "getHistoricalPrice (f_symbol st) (purchaseDateTime_of newDate st) = Inr h"
      "toISOString (purchaseDateTime_of newDate st) = Inl err"
  | (store_failed) h isoText dbError where "validateSymbol (f_symbol st)"
      "getHistoricalPrice (f_symbol st) (purchaseDateTime_of newDate st) = Inr h"
      "toISOString (purchaseDateTime_of newDate st) = Inr isoText"
      "insert_row (submitted_row parseFloat st isoText h) = Some dbError"
  | (success) h isoText where "validateSymbol (f_symbol st)"
      "getHistoricalPrice (f_symbol st) (purchaseDateTime_of newDate st) = Inr h"
      "toISOString (purchaseDateTime_of newDate st) = Inr isoText"
      "insert_row (submitted_row parseFloat st isoText h) = None"
proof (cases "validateSymbol (f_symbol st)")
  case False
  then show ?thesis by (rule invalid)
next
  case valid: True
  show ?thesis
  proof (cases "getHistoricalPrice (f_symbol st) (purchaseDateTime_of newDate st)")
    case (Inl err)
    with valid show ?thesis by (rule fetch_failed)
  next
    case fetched: (Inr h)
    show ?thesis
    proof (cases "toISOString (purchaseDateTime_of newDate st)")
      case (Inl err)
      with valid fetched show ?thesis by (rule date_failed)
    next
      case printed: (Inr isoText)
      show ?thesis
      proof (cases "insert_row (submitted_row parseFloat st isoText h)")
        case None
        with valid fetched printed show ?thesis by (rule success)
      next
        case (Some dbError)
        with valid fetched printed show ?thesis by (rule store_failed)
      qed
    qed
  qed
qed

lemma validateSymbol_btc: "validateSymbol ''btc''"
  by code_simp

lemma validateSymbol_NOTACOIN: "\<not> validateSymbol ''NOTACOIN''"
  by code_simp

text \<open>
  C6. \<open>handleSubmit\<close> checks in order and stops at the first failure. A symbol that
  fails \<open>validateSymbol\<close> gives the "not a supported cryptocurrency" error and no
  request to the oracle or the store. When the historical-price fetch fails, the error
  shown is the message of the thrown \<open>Error\<close> (the fallback text for any other thrown
  value), the oracle request is the only request, and nothing is inserted. Every insert
  request follows a valid symbol and a successful fetch and carries the fetched price
  as \<open>purchase_price_usd\<close>. \<open>onPurchaseAdded\<close> is called exactly when validation,
  fetch, date printing and insert all succeeded; then the form fields are reset, and in
  every other case they keep their values.
\<close>

theorem C6_add_purchase:
  "(\<not> validateSymbol (f_symbol st) \<longrightarrow>
      f_error (s_state (handleSubmit newDate parseFloat getHistoricalPrice insert_row st)) =
        not_supported_text (f_symbol st) \<and>
      s_calls (handleSubmit newDate parseFloat getHistoricalPrice insert_row st) = []) \<and>
   (validateSymbol (f_symbol st) \<and>
      getHistoricalPrice (f_symbol st) (purchaseDateTime_of newDate st) = Inl err \<longrightarrow>
      f_error (s_state (handleSubmit newDate parseFloat getHistoricalPrice insert_row st)) =
        error_text ''Failed to add purchase'' err \<and>
      (\<forall>message. err = Error message \<longrightarrow>
        f_error (s_state (handleSubmit newDate parseFloat getHistoricalPrice insert_row st)) = message) \<and>
      s_calls (handleSubmit newDate parseFloat getHistoricalPrice insert_row st) =
        [Oracle_history (f_symbol st) (purchaseDateTime_of newDate st)]) \<and>
   (\<forall>new. Store_insert new \<in> set (s_calls (handleSubmit newDate parseFloat getHistoricalPrice insert_row st)) \<longrightarrow>
      validateSymbol (f_symbol st) \<and>
      getHistoricalPrice (f_symbol st) (purchaseDateTime_of newDate st) = Inr (n_purchase_price_usd new)) \<and>
   (s_purchaseAdded (handleSubmit newDate parseFloat getHistoricalPrice insert_row st) \<longleftrightarrow>
      validateSymbol (f_symbol st) \<and>
      (\<exists>h isoText. getHistoricalPrice (f_symbol st) (purchaseDateTime_of newDate st) = Inr h \<and>
         toISOString (purchaseDateTime_of newDate st) = Inr isoText \<and>
         insert_row (submitted_row parseFloat st isoText h) = None)) \<and>
   (s_purchaseAdded (handleSubmit newDate parseFloat getHistoricalPrice insert_row st) \<longrightarrow>
      f_symbol (s_state (handleSubmit newDate parseFloat getHistoricalPrice insert_row st)) = [] \<and>
      f_purchaseDate (s_state (handleSubmit newDate parseFloat getHistoricalPrice insert_row st)) = [] \<and>
      f_purchaseTime (s_state (handleSubmit newDate parseFloat getHistoricalPrice insert_row st)) = ''12:00'' \<and>
      f_amount (s_state (handleSubmit newDate parseFloat getHistoricalPrice insert_row st)) = []) \<and>
   (\<not> s_purchaseAdded (handleSubmit newDate parseFloat getHistoricalPrice insert_row st) \<longrightarrow>
      f_symbol (s_state (handleSubmit newDate parseFloat getHistoricalPrice insert_row st)) = f_symbol st \<and>
      f_purchaseDate (s_state (handleSubmit newDate parseFloat getHistoricalPrice insert_row st)) = f_purchaseDate st \<and>
      f_purchaseTime (s_state (handleSubmit newDate parseFloat getHistoricalPrice insert_row st)) = f_purchaseTime st \<and>
      f_amount (s_state (handleSubmit newDate parseFloat getHistoricalPrice insert_row st)) = f_amount st)"
  (is "?P (handleSubmit newDate parseFloat getHistoricalPrice insert_row st)")
proof (cases rule: handleSubmit_cases [where st = st and getHistoricalPrice = getHistoricalPrice
    and newDate = newDate and insert_row = insert_row and parseFloat = parseFloat])
  case invalid
  then show ?thesis
    by (simp add: handleSubmit_invalid)
next
  case (fetch_failed e)
  then show ?thesis
    by (auto simp: handleSubmit_fetch_failed error_text_def)
next
  case (date_failed h e)
  then show ?thesis
    by (simp add: handleSubmit_date_failed)
next
  case (store_failed h isoText dbError)
  then show ?thesis
    by (simp add: handleSubmit_store_failed submitted_row_def)
next
  case (success h isoText)
  then show ?thesis
    by (simp add: handleSubmit_success submitted_row_def)
qed

theorem C6_add_purchase_witness:
  "s_calls (handleSubmit noon one history_40000 insert_ok notacoin_form) = [] \<and>
   f_error (s_state (handleSubmit noon one history_40000 insert_ok notacoin_form)) =
     not_supported_text ''NOTACOIN'' \<and>
   f_error (s_state (handleSubmit noon one history_down insert_ok btc_form)) = ''API returned 429'' \<and>
   s_calls (handleSubmit noon one history_down insert_ok btc_form) =
     [Oracle_history ''btc'' (Date ''2023-01-01T12:00:00.000Z'')] \<and>
   s_purchaseAdded (handleSubmit noon one history_40000 insert_ok btc_form) \<and>
   f_symbol (s_state (handleSubmit noon one history_40000 insert_ok btc_form)) = [] \<and>
   Store_insert
       \<lparr>n_symbol = ''BTC'', n_purchase_date = ''2023-01-01T12:00:00.000Z'',
        n_amount = 1, n_purchase_price_usd = 40000\<rparr>
     \<in> set (s_calls (handleSubmit noon one history_40000 insert_ok btc_form)) \<and>
   history_40000 ''btc'' (Date ''2023-01-01T12:00:00.000Z'') =
     Inr (n_purchase_price_usd
       \<lparr>n_symbol = ''BTC'', n_purchase_date = ''2023-01-01T12:00:00.000Z'',
        n_amount = 1, n_purchase_price_usd = 40000\<rparr>)"
proof -
  let ?new = "\<lparr>n_symbol = ''BTC'', n_purchase_date = ''2023-01-01T12:00:00.000Z'',
        n_amount = 1, n_purchase_price_usd = 40000\<rparr>"
  note a = C6_add_purchase [of notacoin_form noon one history_40000 insert_ok]
  note b = C6_add_purchase [of btc_form noon one history_down insert_ok "Error ''API returned 429''"]
  note c = C6_add_purchase [of btc_form noon one history_40000 insert_ok]
  have sym: "f_symbol notacoin_form = ''NOTACOIN''" "f_symbol btc_form = ''btc''"
    and dt: "purchaseDateTime_of noon btc_form = Date ''2023-01-01T12:00:00.000Z''"
    by (simp_all add: notacoin_form_def btc_form_def purchaseDateTime_of_def noon_def)
  have up: "toUpperCase ''btc'' = ''BTC''"
    by code_simp
  have row: "submitted_row one btc_form ''2023-01-01T12:00:00.000Z'' 40000 = ?new"
    by (simp add: submitted_row_def btc_form_def one_def up)
  have "\<not> validateSymbol (f_symbol notacoin_form)"
    by (simp add: sym validateSymbol_NOTACOIN)
  with a have 1: "s_calls (handleSubmit noon one history_40000 insert_ok notacoin_form) = []"
    and 2: "f_error (s_state (handleSubmit noon one history_40000 insert_ok notacoin_form)) =
       not_supported_text ''NOTACOIN''"
    unfolding sym by blast+
  have "validateSymbol (f_symbol btc_form) \<and>
        history_down (f_symbol btc_form) (purchaseDateTime_of noon btc_form) =
          Inl (Error ''API returned 429'')"
    by (simp add: sym validateSymbol_btc history_down_def)
  with b have 3: "f_error (s_state (handleSubmit noon one history_down insert_ok btc_form)) =
       ''API returned 429''"
    and 4: "s_calls (handleSubmit noon one history_down insert_ok btc_form) =
       [Oracle_history ''btc'' (Date ''2023-01-01T12:00:00.000Z'')]"
    unfolding sym dt by blast+
  have ok: "validateSymbol (f_symbol btc_form) \<and>
        (\<exists>h isoText. history_40000 (f_symbol btc_form) (purchaseDateTime_of noon btc_form) = Inr h \<and>
           toISOString (purchaseDateTime_of noon btc_form) = Inr isoText \<and>
           insert_ok (submitted_row one btc_form isoText h) = None)"
    by (simp add: sym dt validateSymbol_btc history_40000_def toISOString_def insert_ok_def)
  with c have 5: "s_purchaseAdded (handleSubmit noon one history_40000 insert_ok btc_form)"
    by blast
  with c have 6: "f_symbol (s_state (handleSubmit noon one history_40000 insert_ok btc_form)) = []"
    by blast
  have mem: "Store_insert ?new \<in> set (s_calls (handleSubmit noon one history_40000 insert_ok btc_form))"
    using handleSubmit_success [of btc_form history_40000 noon 40000 "''2023-01-01T12:00:00.000Z''"
        insert_ok one]
    by (simp add: sym dt row validateSymbol_btc history_40000_def toISOString_def insert_ok_def)
  with c have 7: "history_40000 ''btc'' (Date ''2023-01-01T12:00:00.000Z'') =
      Inr (n_purchase_price_usd ?new)"
    unfolding sym dt by blast
  from 1 2 3 4 5 6 mem 7 show ?thesis by blast
qed


section \<open>The refresh timer\<close>

lemma timer_inv_iff:
  "timer_inv s \<longleftrightarrow>
     (case cleanup s of
        None \<Rightarrow> active s = [] \<and> (deps s = None \<or> deps s = Some 0)
      | Some i \<Rightarrow> i < next_id s \<and>
          (\<exists>ps. active s = [(i, ps)] \<and> deps s = Some (length ps) \<and> ps \<noteq> []))"
  by (auto simp: timer_inv_def split: option.splits list.splits)

lemma timer_inv_mount: "timer_inv mount"
  by (simp add: timer_inv_iff mount_def)

lemma run_cleanup_clears:
  assumes "timer_inv s"
  shows "active (run_cleanup s) = []" "cleanup (run_cleanup s) = None"
        "next_id (run_cleanup s) = next_id s"
  using assms
  by (auto simp: timer_inv_iff run_cleanup_def clearInterval_def split: option.splits)

lemma commit_same:
  "deps s = Some (length ps) \<Longrightarrow> commit ps s = s"
  by (simp add: commit_def)

lemma commit_changed:
  assumes "timer_inv s" "deps s \<noteq> Some (length ps)"
  shows "active (commit ps s) = (if ps = [] then [] else [(next_id s, ps)])"
    and "cleanup (commit ps s) = (if ps = [] then None else Some (next_id s))"
    and "next_id (commit ps s) = (if ps = [] then next_id s else Suc (next_id s))"
  using assms run_cleanup_clears [OF assms(1)]
  by (auto simp: commit_def interval_effect_def setInterval_def)

lemma deps_commit: "deps (commit ps s) = Some (length ps)"
  by (auto simp: commit_def interval_effect_def setInterval_def)

lemma timer_inv_commit:
  assumes "timer_inv s"
  shows "timer_inv (commit ps s)"
proof (cases "deps s = Some (length ps)")
  case True
  with assms show ?thesis by (simp add: commit_same)
next
  case False
  note c = commit_changed [OF assms False] deps_commit [of ps s]
  show ?thesis
  proof (cases "ps = []")
    case True
    with c show ?thesis by (simp add: timer_inv_iff)
  next
    case False
    with c show ?thesis by (simp add: timer_inv_iff)
  qed
qed

lemma renders_snoc: "renders (rs @ [ps]) = commit ps (renders rs)"
  by (simp add: renders_def)

lemma timer_inv_renders: "timer_inv (renders rs)"
proof (induction rs rule: rev_induct)
  case Nil
  show ?case by (simp add: renders_def timer_inv_mount)
next
  case (snoc ps rs)
  then show ?case by (simp add: renders_snoc timer_inv_commit)
qed

lemma deps_renders:
  "deps (renders rs) = (if rs = [] then None else Some (length (last rs)))"
  by (cases rs rule: rev_cases) (simp_all add: renders_def mount_def renders_snoc deps_commit)

lemma active_iff_nonempty:
  "active (renders rs) \<noteq> [] \<longleftrightarrow> rs \<noteq> [] \<and> last rs \<noteq> []"
  using timer_inv_renders [of rs] deps_renders [of rs]
  by (auto simp: timer_inv_iff split: option.splits if_splits)

lemma fresh_id:
  "timer_inv s \<Longrightarrow> next_id s \<notin> fst ` set (active s)"
  by (auto simp: timer_inv_iff split: option.splits)

text \<open>
  C9 (amended). After every sequence of renders at most one interval timer is running,
  and one is running exactly when the list of the last render is non-empty. A render
  whose list has the length of the previous one changes nothing: the running timer and
  the list its callback captured stay, also when the list itself is a different one. A
  render whose list has another length clears the running timer and, unless the new
  list is empty, starts one timer under a fresh id that captures the new list.
\<close>

theorem C9_interval_timer:
  "length (active (renders rs)) \<le> 1 \<and>
   (active (renders rs) \<noteq> [] \<longleftrightarrow> rs \<noteq> [] \<and> last rs \<noteq> []) \<and>
   (rs \<noteq> [] \<and> length ps = length (last rs) \<longrightarrow> renders (rs @ [ps]) = renders rs) \<and>
   (rs = [] \<or> length ps \<noteq> length (last rs) \<longrightarrow>
      active (renders (rs @ [ps])) = (if ps = [] then [] else [(next_id (renders rs), ps)]) \<and>
      next_id (renders rs) \<notin> fst ` set (active (renders rs)))"
proof (intro conjI impI)
  show "length (active (renders rs)) \<le> 1"
    using timer_inv_renders [of rs] by (auto simp: timer_inv_iff split: option.splits)
  show "active (renders rs) \<noteq> [] \<longleftrightarrow> rs \<noteq> [] \<and> last rs \<noteq> []"
    by (rule active_iff_nonempty)
  show "renders (rs @ [ps]) = renders rs" if "rs \<noteq> [] \<and> length ps = length (last rs)"
    using that by (simp add: renders_snoc commit_same deps_renders)
  assume changed: "rs = [] \<or> length ps \<noteq> length (last rs)"
  then have "deps (renders rs) \<noteq> Some (length ps)"
    by (auto simp: deps_renders)
  with timer_inv_renders [of rs]
  show "active (renders (rs @ [ps])) = (if ps = [] then [] else [(next_id (renders rs), ps)])"
    unfolding renders_snoc by (rule commit_changed(1))
  show "next_id (renders rs) \<notin> fst ` set (active (renders rs))"
    using timer_inv_renders by (rule fresh_id)
qed

theorem C9_interval_timer_witness:
  "length (active (renders [[], [row ''1'' ''BTC'' 2 (Some 100)]])) \<le> 1 \<and>
   active (renders [[], [row ''1'' ''BTC'' 2 (Some 100)]]) \<noteq> [] \<and>
   renders ([[], [row ''1'' ''BTC'' 2 (Some 100)]] @ [[valued_row]]) =
     renders [[], [row ''1'' ''BTC'' 2 (Some 100)]] \<and>
   active (renders ([[], [row ''1'' ''BTC'' 2 (Some 100)]] @ [[]])) = [] \<and>
   active (renders ([[], [row ''1'' ''BTC'' 2 (Some 100)]] @
       [[valued_row, row ''2'' ''ETH'' 1 (Some 10)]])) =
     [(next_id (renders [[], [row ''1'' ''BTC'' 2 (Some 100)]]),
       [valued_row, row ''2'' ''ETH'' 1 (Some 10)])]"
proof -
  let ?rs = "[[], [row ''1'' ''BTC'' 2 (Some 100)]]"
  let ?two = "[valued_row, row ''2'' ''ETH'' 1 (Some 10)]"
  note same = C9_interval_timer [of ?rs "[valued_row]"]
  note emptied = C9_interval_timer [of ?rs "[]"]
  note grown = C9_interval_timer [of ?rs ?two]
  have h: "?rs \<noteq> [] \<and> last ?rs \<noteq> []"
    "?rs \<noteq> [] \<and> length [valued_row] = length (last ?rs)"
    "?rs = [] \<or> length ([]::PurchaseWithPrice list) \<noteq> length (last ?rs)"
    "?rs = [] \<or> length ?two \<noteq> length (last ?rs)"
    by simp_all
  from same have 1: "length (active (renders ?rs)) \<le> 1" by blast
  from same h(1) have 2: "active (renders ?rs) \<noteq> []" by blast
  from same h(2) have 3: "renders (?rs @ [[valued_row]]) = renders ?rs" by blast
  from emptied h(3) have "active (renders (?rs @ [[]])) =
      (if ([]::PurchaseWithPrice list) = [] then [] else [(next_id (renders ?rs), [])])"
    by blast
  then have 4: "active (renders (?rs @ [[]])) = []" by simp
  from grown h(4) have "active (renders (?rs @ [?two])) =
      (if ?two = [] then [] else [(next_id (renders ?rs), ?two)])"
    by blast
  then have 5: "active (renders (?rs @ [?two])) = [(next_id (renders ?rs), ?two)]" by simp
  from 1 2 3 4 5 show ?thesis by blast
qed

text \<open>
  The claim as first worded has the timer torn down and recreated whenever the record
  set changes. The effect depends on \<open>purchases.length\<close> only: when a valuation pass
  replaces the one-record list by its valued copy, the timer of the earlier render keeps
  running with the earlier list.
\<close>

theorem C9_same_length_counterexample:
  "[row ''1'' ''BTC'' 2 (Some 100)] \<noteq> [valued_row] \<and>
   renders [[], [row ''1'' ''BTC'' 2 (Some 100)], [valued_row]] =
     renders [[], [row ''1'' ''BTC'' 2 (Some 100)]] \<and>
   active (renders [[], [row ''1'' ''BTC'' 2 (Some 100)], [valued_row]]) =
     [(0, [row ''1'' ''BTC'' 2 (Some 100)])]"
  by (simp add: renders_def commit_def mount_def interval_effect_def run_cleanup_def
      setInterval_def clearInterval_def valued_row_def row_def)

end
